theory Spec2Isabelle
  imports Main "HOL-Library.AList"
begin

section \<open>The fragment of the Python object model the runtime inspects\<close>

text \<open>
  The jsii Python runtime (\<^verbatim>\<open>jsii/_kernel/__init__.py\<close> and \<^verbatim>\<open>jsii/_reference_map.py\<close>)
  looks at classes and their members through a handful of observations only:
  \<^verbatim>\<open>type(obj).mro()\<close>, \<^verbatim>\<open>klass.__dict__.items()\<close>, \<^verbatim>\<open>getattr(klass, name, _nothing)\<close>,
  \<^verbatim>\<open>inspect.isfunction\<close>, \<^verbatim>\<open>inspect.isdatadescriptor\<close>, \<^verbatim>\<open>hasattr(x, "__jsii_name__")\<close>,
  \<^verbatim>\<open>x.fget\<close>, \<^verbatim>\<open>inspect.isabstract\<close>, \<^verbatim>\<open>klass.__jsii_type__\<close> and
  \<^verbatim>\<open>klass.__jsii_proxy_class__()\<close>. A class member is modelled by exactly what these
  observations can see of it. The older module \<^verbatim>\<open>jsii/kernel/__init__.py\<close>, a kernel without
  overrides and without dereferencing, is not what the reference map imports and is left
  out.
\<close>

text \<open>Exceptions the modelled code raises itself, and whatever a provider raises.\<close>

datatype exn =
    AttributeError string
  | ValueError string
  | TypeError string
  | ProviderError string

text \<open>
  \<^verbatim>\<open>inspect.isfunction\<close> and \<^verbatim>\<open>inspect.isdatadescriptor\<close> exclude each other (a function has no
  \<^verbatim>\<open>__set__\<close>), so the two tests are one three-valued kind.
\<close>

datatype kind = Function | DataDescriptor | Other

text \<open>
  A member: its kind, its \<^verbatim>\<open>__jsii_name__\<close> attribute when it has one, and its \<^verbatim>\<open>fget\<close>
  attribute when it has one (a \<^verbatim>\<open>property\<close> has, its getter or \<^verbatim>\<open>None\<close>; a function has not).
\<close>

datatype pyattr = PyAttr (kind: kind) (jsii_name: "string option") (fget: "pyattr option")

type_synonym cname = string

record pyclass =
  mro :: "cname list"
  cdict :: "(string \<times> pyattr) list"
  jsii_type :: string
  is_abstract :: bool
  jsii_proxy_class :: "cname option"

type_synonym class_table = "cname \<Rightarrow> pyclass"

definition isfunction :: "pyattr \<Rightarrow> bool" where
  "isfunction item = (kind item = Function)"

definition isdatadescriptor :: "pyattr \<Rightarrow> bool" where
  "isdatadescriptor item = (kind item = DataDescriptor)"

definition hasattr_jsii_name :: "pyattr \<Rightarrow> bool" where
  "hasattr_jsii_name x = (jsii_name x \<noteq> None)"

text \<open>
  \<^verbatim>\<open>getattr(klass, name, _nothing)\<close>: the first class of \<^verbatim>\<open>klass\<close>'s MRO whose \<^verbatim>\<open>__dict__\<close> has the
  name; \<open>None\<close> is the \<^verbatim>\<open>_nothing\<close> sentinel. A function or a property looked up on the
  class is returned as it is stored.
\<close>

fun lookup_mro :: "class_table \<Rightarrow> cname list \<Rightarrow> string \<Rightarrow> pyattr option" where
  "lookup_mro ct [] name = None"
| "lookup_mro ct (c # cs) name =
     (case map_of (cdict (ct c)) name of
        Some a \<Rightarrow> Some a
      | None \<Rightarrow> lookup_mro ct cs name)"

definition getattr :: "class_table \<Rightarrow> cname \<Rightarrow> string \<Rightarrow> pyattr option" where
  "getattr ct klass name = lookup_mro ct (mro (ct klass)) name"

section \<open>Override discovery\<close>

text \<open>
  \<^verbatim>\<open>Override(method=..., cookie=name)\<close> and \<^verbatim>\<open>Override(property_=..., cookie=name)\<close>: the three
  optional fields of the request type.
\<close>

datatype override =
  Override (ov_method: "string option") (ov_property: "string option") (ov_cookie: "string option")

text \<open>
  The inner loop of \<^verbatim>\<open>_get_overides\<close>, over \<^verbatim>\<open>mro_klass.__dict__.items()\<close>. Evaluating
  \<^verbatim>\<open>original.fget\<close> on a member without that attribute raises \<^verbatim>\<open>AttributeError\<close>; nothing
  catches it.
\<close>

fun items_loop ::
  "class_table \<Rightarrow> cname \<Rightarrow> (string \<times> pyattr) list \<Rightarrow> override list \<Rightarrow> exn + override list"
where
  "items_loop ct klass [] overrides = Inr overrides"
| "items_loop ct klass ((name, item) # rest) overrides =
     (case getattr ct klass name of
        None \<Rightarrow> items_loop ct klass rest overrides
      | Some original \<Rightarrow>
          if isfunction item \<and> hasattr_jsii_name original then
            items_loop ct klass rest
              (overrides @ [Override (jsii_name original) None (Some name)])
          else if isdatadescriptor item then
            (case fget original of
               None \<Rightarrow> Inl (AttributeError ''fget'')
             | Some getter \<Rightarrow>
                 if hasattr_jsii_name getter then
                   items_loop ct klass rest
                     (overrides @ [Override None (jsii_name getter) (Some name)])
                 else items_loop ct klass rest overrides)
          else items_loop ct klass rest overrides)"

text \<open>The outer loop, over \<^verbatim>\<open>type(obj).mro()\<close>, with its \<^verbatim>\<open>break\<close> at \<^verbatim>\<open>klass\<close>.\<close>

fun mro_loop ::
  "class_table \<Rightarrow> cname \<Rightarrow> cname list \<Rightarrow> override list \<Rightarrow> exn + override list"
where
  "mro_loop ct klass [] overrides = Inr overrides"
| "mro_loop ct klass (mro_klass # rest) overrides =
     (if mro_klass = klass then Inr overrides
      else (case items_loop ct klass (cdict (ct mro_klass)) overrides of
              Inl e \<Rightarrow> Inl e
            | Inr overrides' \<Rightarrow> mro_loop ct klass rest overrides'))"

text \<open>\<^verbatim>\<open>_get_overides(klass, obj)\<close>; the object enters through \<^verbatim>\<open>type(obj)\<close> only.\<close>

definition get_overides :: "class_table \<Rightarrow> cname \<Rightarrow> cname \<Rightarrow> exn + override list" where
  "get_overides ct klass type_obj = mro_loop ct klass (mro (ct type_obj)) []"

section \<open>Values, instances and the process-wide state\<close>

text \<open>\<^verbatim>\<open>ObjRef\<close>, the marker of a remote reference: \<^verbatim>\<open><type name>@<instance id>\<close>.\<close>

datatype objref = ObjRef (ref: string)

text \<open>
  What a provider returns and what the kernel hands to its caller: JSON-like data in which
  \<^verbatim>\<open>ObjRef\<close> markers may occur, and, after dereferencing, local instances (by identity).
  A \<^verbatim>\<open>dict\<close> is the list of its items in insertion order.
\<close>

datatype val =
    VNone
  | VBool bool
  | VNum int
  | VStr string
  | VList "val list"
  | VDict "(val \<times> val) list"
  | VRef objref
  | VInst nat

text \<open>A local instance: its class and its \<^verbatim>\<open>__jsii_ref__\<close> attribute, when assigned.\<close>

record pyinstance =
  inst_class :: cname
  jsii_ref :: "objref option"

text \<open>A data-type descriptor: \<^verbatim>\<open>__jsii_type__\<close> and the keys of \<^verbatim>\<open>__annotations__\<close>.\<close>

record data_type =
  dt_jsii_type :: string
  annotations :: "string list"

text \<open>
  The mutable state: the objects (\<open>heap\<close>, identities below \<open>next_id\<close> are allocated), the
  \<^verbatim>\<open>WeakValueDictionary\<close> \<^verbatim>\<open>_refs\<close>, the module globals \<^verbatim>\<open>_types\<close> and \<^verbatim>\<open>_data_types\<close>, and
  the state of the provider behind the kernel.
\<close>

record 'p world =
  heap :: "nat \<Rightarrow> pyinstance"
  next_id :: nat
  refs :: "string \<Rightarrow> nat option"
  types :: "string \<Rightarrow> cname option"
  data_types :: "string \<Rightarrow> data_type option"
  pstate :: 'p

text \<open>
  A computation returns \<open>Inl\<close> an exception or \<open>Inr\<close> a value, with the state it leaves;
  \<open>None\<close> is a call chain that never returns (the nesting of \<^verbatim>\<open>kernel.get\<close> inside
  \<^verbatim>\<open>resolve\<close> is bounded by nothing but the provider's answers).
\<close>

type_synonym ('p, 'a) comp = "'p world \<Rightarrow> ((exn + 'a) \<times> 'p world) option"

text \<open>An object with a \<^verbatim>\<open>__jsii_ref__\<close>: an instance, or the \<^verbatim>\<open>_FakeReference\<close> wrapper.\<close>

datatype referenceable = Instance nat | FakeReference objref

definition jsii_ref_of :: "'p world \<Rightarrow> referenceable \<Rightarrow> objref option" where
  "jsii_ref_of w obj =
     (case obj of Instance i \<Rightarrow> jsii_ref (heap w i) | FakeReference r \<Rightarrow> Some r)"

type_synonym 'p kernel_get = "referenceable \<Rightarrow> string \<Rightarrow> ('p, val) comp"

section \<open>The reference map\<close>

definition register_type :: "class_table \<Rightarrow> cname \<Rightarrow> 'p world \<Rightarrow> 'p world" where
  "register_type ct klass w = w\<lparr>types := (types w)(jsii_type (ct klass) \<mapsto> klass)\<rparr>"

definition register_data_type :: "data_type \<Rightarrow> 'p world \<Rightarrow> 'p world" where
  "register_data_type dt w = w\<lparr>data_types := (data_types w)(dt_jsii_type dt \<mapsto> dt)\<rparr>"

text \<open>\<^verbatim>\<open>_ReferenceMap.register\<close>: \<^verbatim>\<open>self._refs[inst.__jsii_ref__.ref] = inst\<close>.\<close>

definition register :: "nat \<Rightarrow> 'p world \<Rightarrow> (exn + unit) \<times> 'p world" where
  "register inst w =
     (case jsii_ref (heap w inst) of
        None \<Rightarrow> (Inl (AttributeError ''__jsii_ref__''), w)
      | Some r \<Rightarrow> (Inr (), w\<lparr>refs := (refs w)(ref r \<mapsto> inst)\<rparr>))"

text \<open>
  The weak holding of \<^verbatim>\<open>_refs\<close>: when the objects \<open>dead\<close> have become unreachable, their
  entries leave the dictionary.
\<close>

definition collect :: "nat list \<Rightarrow> 'p world \<Rightarrow> 'p world" where
  "collect dead w =
     w\<lparr>refs := (\<lambda>k. case refs w k of
                       None \<Rightarrow> None
                     | Some i \<Rightarrow> if i \<in> set dead then None else Some i)\<rparr>"

text \<open>\<^verbatim>\<open>s.rsplit("@", 1)[0]\<close>: what precedes the last \<^verbatim>\<open>@\<close>, or all of \<open>s\<close> without one.\<close>

definition rsplit_head :: "string \<Rightarrow> string" where
  "rsplit_head s =
     (if CHR ''@'' \<in> set s
      then rev (tl (dropWhile (\<lambda>c. c \<noteq> CHR ''@'') (rev s)))
      else s)"

text \<open>
  \<^verbatim>\<open>inst = klass.__new__(klass)\<close> followed by \<^verbatim>\<open>inst.__jsii_ref__ = ref\<close>. \<^verbatim>\<open>object.__new__\<close>
  refuses a class that is abstract with \<^verbatim>\<open>TypeError\<close>; otherwise the next identity is
  allocated. No initializer runs: nothing but the heap changes.
\<close>

definition new_instance :: "class_table \<Rightarrow> cname \<Rightarrow> objref \<Rightarrow> 'p world \<Rightarrow> (exn + val) \<times> 'p world" where
  "new_instance ct klass r w =
     (if is_abstract (ct klass) then (Inl (TypeError ''abstract class''), w)
      else
        (let inst = next_id w in
         (Inr (VInst inst),
          w\<lparr>heap := (heap w)(inst := \<lparr>inst_class = klass, jsii_ref = Some r\<rparr>),
            next_id := Suc inst\<rparr>)))"

text \<open>
  The loop of the data-type branch: \<^verbatim>\<open>inst[name] = kernel.get(_FakeReference(ref), name)\<close>
  for each annotation key, \<open>inst\<close> starting empty.
\<close>

fun fields_loop ::
  "'p kernel_get \<Rightarrow> objref \<Rightarrow> string list \<Rightarrow> (val \<times> val) list \<Rightarrow> ('p, val) comp"
where
  "fields_loop kget r [] inst w = Some (Inr (VDict inst), w)"
| "fields_loop kget r (name # names) inst w =
     (case kget (FakeReference r) name w of
        None \<Rightarrow> None
      | Some (Inl e, w') \<Rightarrow> Some (Inl e, w')
      | Some (Inr v, w') \<Rightarrow> fields_loop kget r names (AList.update (VStr name) v inst) w')"

text \<open>\<^verbatim>\<open>_ReferenceMap.resolve(kernel, ref)\<close>; of the kernel it uses the \<^verbatim>\<open>get\<close> method only.\<close>

definition resolve :: "class_table \<Rightarrow> 'p kernel_get \<Rightarrow> objref \<Rightarrow> ('p, val) comp" where
  "resolve ct kget r w =
     (case refs w (ref r) of
        Some inst \<Rightarrow> Some (Inr (VInst inst), w)
      | None \<Rightarrow>
          (let class_fqn = rsplit_head (ref r) in
           case types w class_fqn of
             Some klass \<Rightarrow>
               (if is_abstract (ct klass) then
                  (case jsii_proxy_class (ct klass) of
                     None \<Rightarrow> Some (Inl (AttributeError ''__jsii_proxy_class__''), w)
                   | Some proxy \<Rightarrow> Some (new_instance ct proxy r w))
                else Some (new_instance ct klass r w))
           | None \<Rightarrow>
               (case data_types w class_fqn of
                  Some dt \<Rightarrow> fields_loop kget r (annotations dt) [] w
                | None \<Rightarrow> Some (Inl (ValueError (''Unknown type: '' @ class_fqn)), w))))"

section \<open>The kernel\<close>

text \<open>
  \<^verbatim>\<open>_recursize_dereference(kernel, d)\<close>: a \<^verbatim>\<open>Mapping\<close> is rebuilt with each value dereferenced,
  an \<^verbatim>\<open>ObjRef\<close> is resolved, anything else is returned as it is.
\<close>

fun recursize_dereference :: "class_table \<Rightarrow> 'p kernel_get \<Rightarrow> val \<Rightarrow> ('p, val) comp"
  and deref_items ::
    "class_table \<Rightarrow> 'p kernel_get \<Rightarrow> (val \<times> val) list \<Rightarrow> ('p, (val \<times> val) list) comp"
where
  "recursize_dereference ct kget (VDict items) w =
     (case deref_items ct kget items w of
        None \<Rightarrow> None
      | Some (Inl e, w') \<Rightarrow> Some (Inl e, w')
      | Some (Inr items', w') \<Rightarrow> Some (Inr (VDict items'), w'))"
| "recursize_dereference ct kget (VRef r) w = resolve ct kget r w"
| "recursize_dereference ct kget VNone w = Some (Inr VNone, w)"
| "recursize_dereference ct kget (VBool b) w = Some (Inr (VBool b), w)"
| "recursize_dereference ct kget (VNum n) w = Some (Inr (VNum n), w)"
| "recursize_dereference ct kget (VStr s) w = Some (Inr (VStr s), w)"
| "recursize_dereference ct kget (VList xs) w = Some (Inr (VList xs), w)"
| "recursize_dereference ct kget (VInst i) w = Some (Inr (VInst i), w)"
| "deref_items ct kget [] w = Some (Inr [], w)"
| "deref_items ct kget ((k, v) # rest) w =
     (case recursize_dereference ct kget v w of
        None \<Rightarrow> None
      | Some (Inl e, w') \<Rightarrow> Some (Inl e, w')
      | Some (Inr v', w') \<Rightarrow>
          (case deref_items ct kget rest w' of
             None \<Rightarrow> None
           | Some (Inl e, w'') \<Rightarrow> Some (Inl e, w'')
           | Some (Inr rest', w'') \<Rightarrow> Some (Inr ((k, v') # rest'), w'')))"

text \<open>The decorator \<^verbatim>\<open>_dereferenced\<close>: run the method, dereference what it returns.\<close>

definition dereferenced ::
  "class_table \<Rightarrow> 'p kernel_get \<Rightarrow> ('p world \<Rightarrow> (exn + val) \<times> 'p world) \<Rightarrow> ('p, val) comp"
where
  "dereferenced ct kget fn w =
     (case fn w of
        (Inl e, w') \<Rightarrow> Some (Inl e, w')
      | (Inr v, w') \<Rightarrow> recursize_dereference ct kget v w')"

text \<open>The typed requests of \<^verbatim>\<open>jsii._kernel.types\<close>, one per operation kind.\<close>

datatype request =
    LoadRequest string string string
  | CreateRequest string "val list" "override list"
  | DeleteRequest objref
  | GetRequest objref string
  | SetRequest objref string val
  | StaticGetRequest string string
  | StaticSetRequest string string val
  | InvokeRequest objref string "val list"
  | StaticInvokeRequest string string "val list"
  | StatsRequest

text \<open>
  The provider is outside this layer: one method per request kind, each a synchronous
  round trip that answers or raises and may change the provider's own state \<open>'p\<close>.
  A method's answer is the part of the response the kernel reads (\<^verbatim>\<open>.value\<close>, \<^verbatim>\<open>.result\<close>,
  \<^verbatim>\<open>.objectCount\<close>, the \<^verbatim>\<open>ObjRef\<close> of a creation).
\<close>

record 'p provider =
  p_load :: "request \<Rightarrow> 'p \<Rightarrow> (exn + unit) \<times> 'p"
  p_create :: "request \<Rightarrow> 'p \<Rightarrow> (exn + objref) \<times> 'p"
  p_delete :: "request \<Rightarrow> 'p \<Rightarrow> (exn + unit) \<times> 'p"
  p_get :: "request \<Rightarrow> 'p \<Rightarrow> (exn + val) \<times> 'p"
  p_set :: "request \<Rightarrow> 'p \<Rightarrow> (exn + unit) \<times> 'p"
  p_sget :: "request \<Rightarrow> 'p \<Rightarrow> (exn + val) \<times> 'p"
  p_sset :: "request \<Rightarrow> 'p \<Rightarrow> (exn + unit) \<times> 'p"
  p_invoke :: "request \<Rightarrow> 'p \<Rightarrow> (exn + val) \<times> 'p"
  p_sinvoke :: "request \<Rightarrow> 'p \<Rightarrow> (exn + val) \<times> 'p"
  p_stats :: "request \<Rightarrow> 'p \<Rightarrow> (exn + int) \<times> 'p"

text \<open>\<^verbatim>\<open>self.provider.m(request)\<close>: the round trip touches the provider's state only.\<close>

definition round_trip ::
  "(request \<Rightarrow> 'p \<Rightarrow> (exn + 'a) \<times> 'p) \<Rightarrow> request \<Rightarrow> 'p world \<Rightarrow> (exn + 'a) \<times> 'p world"
where
  "round_trip m req w = (case m req (pstate w) of (res, p') \<Rightarrow> (res, w\<lparr>pstate := p'\<rparr>))"

text \<open>Reading \<^verbatim>\<open>obj.__jsii_ref__\<close> before a request is built.\<close>

definition with_jsii_ref ::
  "referenceable \<Rightarrow> (objref \<Rightarrow> 'p world \<Rightarrow> (exn + 'a) \<times> 'p world) \<Rightarrow> 'p world
     \<Rightarrow> (exn + 'a) \<times> 'p world"
where
  "with_jsii_ref obj k w =
     (case jsii_ref_of w obj of
        None \<Rightarrow> (Inl (AttributeError ''__jsii_ref__''), w)
      | Some r \<Rightarrow> k r w)"

datatype statistics = Statistics (object_count: int)

text \<open>The methods of \<^verbatim>\<open>Kernel\<close>; \<open>_body\<close> is a method as written under its decorator.\<close>

definition load ::
  "'p provider \<Rightarrow> string \<Rightarrow> string \<Rightarrow> string \<Rightarrow> 'p world \<Rightarrow> (exn + unit) \<times> 'p world" where
  "load P name version tarball w = round_trip (p_load P) (LoadRequest name version tarball) w"

definition create ::
  "'p provider \<Rightarrow> class_table \<Rightarrow> cname \<Rightarrow> nat \<Rightarrow> val list option \<Rightarrow> 'p world
     \<Rightarrow> (exn + objref) \<times> 'p world"
where
  "create P ct klass obj args w =
     (let args = (case args of None \<Rightarrow> [] | Some a \<Rightarrow> a) in
      case get_overides ct klass (inst_class (heap w obj)) of
        Inl e \<Rightarrow> (Inl e, w)
      | Inr overrides \<Rightarrow>
          (case round_trip (p_create P)
                  (CreateRequest (jsii_type (ct klass)) args overrides) w of
             (Inl e, w') \<Rightarrow> (Inl e, w')
           | (Inr r, w') \<Rightarrow>
               (Inr r, w'\<lparr>heap := (heap w')(obj := (heap w' obj)\<lparr>jsii_ref := Some r\<rparr>)\<rparr>)))"

definition delete :: "'p provider \<Rightarrow> objref \<Rightarrow> 'p world \<Rightarrow> (exn + unit) \<times> 'p world" where
  "delete P r w = round_trip (p_delete P) (DeleteRequest r) w"

definition get_body ::
  "'p provider \<Rightarrow> referenceable \<Rightarrow> string \<Rightarrow> 'p world \<Rightarrow> (exn + val) \<times> 'p world" where
  "get_body P obj property w =
     with_jsii_ref obj (\<lambda>r. round_trip (p_get P) (GetRequest r property)) w"

definition kernel_set ::
  "'p provider \<Rightarrow> referenceable \<Rightarrow> string \<Rightarrow> val \<Rightarrow> 'p world \<Rightarrow> (exn + unit) \<times> 'p world" where
  "kernel_set P obj property v w =
     with_jsii_ref obj (\<lambda>r. round_trip (p_set P) (SetRequest r property v)) w"

definition sget_body ::
  "'p provider \<Rightarrow> class_table \<Rightarrow> cname \<Rightarrow> string \<Rightarrow> 'p world \<Rightarrow> (exn + val) \<times> 'p world" where
  "sget_body P ct klass property w =
     round_trip (p_sget P) (StaticGetRequest (jsii_type (ct klass)) property) w"

definition sset ::
  "'p provider \<Rightarrow> class_table \<Rightarrow> cname \<Rightarrow> string \<Rightarrow> val \<Rightarrow> 'p world \<Rightarrow> (exn + unit) \<times> 'p world"
where
  "sset P ct klass property v w =
     round_trip (p_sset P) (StaticSetRequest (jsii_type (ct klass)) property v) w"

definition invoke_body ::
  "'p provider \<Rightarrow> referenceable \<Rightarrow> string \<Rightarrow> val list option \<Rightarrow> 'p world
     \<Rightarrow> (exn + val) \<times> 'p world"
where
  "invoke_body P obj method args w =
     (let args = (case args of None \<Rightarrow> [] | Some a \<Rightarrow> a) in
      with_jsii_ref obj (\<lambda>r. round_trip (p_invoke P) (InvokeRequest r method args)) w)"

definition sinvoke_body ::
  "'p provider \<Rightarrow> class_table \<Rightarrow> cname \<Rightarrow> string \<Rightarrow> val list option \<Rightarrow> 'p world
     \<Rightarrow> (exn + val) \<times> 'p world"
where
  "sinvoke_body P ct klass method args w =
     (let args = (case args of None \<Rightarrow> [] | Some a \<Rightarrow> a) in
      round_trip (p_sinvoke P) (StaticInvokeRequest (jsii_type (ct klass)) method args) w)"

definition stats :: "'p provider \<Rightarrow> 'p world \<Rightarrow> (exn + statistics) \<times> 'p world" where
  "stats P w =
     (case round_trip (p_stats P) StatsRequest w of
        (Inl e, w') \<Rightarrow> (Inl e, w')
      | (Inr n, w') \<Rightarrow> (Inr (Statistics n), w'))"

text \<open>
  The decorated methods. \<^verbatim>\<open>Kernel.get\<close> is what \<^verbatim>\<open>resolve\<close> calls back for the fields of a
  data value, so it is recursive through the provider's answers; the first argument bounds
  the depth of that nesting, and \<open>None\<close> says the bound was reached.
\<close>

primrec kernel_get ::
  "nat \<Rightarrow> 'p provider \<Rightarrow> class_table \<Rightarrow> referenceable \<Rightarrow> string \<Rightarrow> ('p, val) comp"
where
  "kernel_get 0 P ct obj property w = None"
| "kernel_get (Suc n) P ct obj property w =
     dereferenced ct (kernel_get n P ct) (get_body P obj property) w"

definition sget ::
  "nat \<Rightarrow> 'p provider \<Rightarrow> class_table \<Rightarrow> cname \<Rightarrow> string \<Rightarrow> ('p, val) comp" where
  "sget n P ct klass property w =
     dereferenced ct (kernel_get n P ct) (sget_body P ct klass property) w"

definition invoke ::
  "nat \<Rightarrow> 'p provider \<Rightarrow> class_table \<Rightarrow> referenceable \<Rightarrow> string \<Rightarrow> val list option
     \<Rightarrow> ('p, val) comp"
where
  "invoke n P ct obj method args w =
     dereferenced ct (kernel_get n P ct) (invoke_body P obj method args) w"

definition sinvoke ::
  "nat \<Rightarrow> 'p provider \<Rightarrow> class_table \<Rightarrow> cname \<Rightarrow> string \<Rightarrow> val list option \<Rightarrow> ('p, val) comp"
where
  "sinvoke n P ct klass method args w =
     dereferenced ct (kernel_get n P ct) (sinvoke_body P ct klass method args) w"

section \<open>Override discovery, as the specification words it\<close>

text \<open>
  The ancestors walked: the MRO of the instance's class up to, and without, the declared
  remote type (all of it when the declared type does not occur).
\<close>

definition intermediate_ancestors :: "class_table \<Rightarrow> cname \<Rightarrow> cname \<Rightarrow> cname list" where
  "intermediate_ancestors ct klass type_obj = takeWhile (\<lambda>c. c \<noteq> klass) (mro (ct type_obj))"

text \<open>The members those ancestors define, in the order the walk meets them.\<close>

definition ancestor_members :: "class_table \<Rightarrow> cname \<Rightarrow> cname \<Rightarrow> (string \<times> pyattr) list" where
  "ancestor_members ct klass type_obj =
     concat (map (\<lambda>c. cdict (ct c)) (intermediate_ancestors ct klass type_obj))"

text \<open>
  The Override one ancestor member stands for, if any: a plain function whose namesake on
  the declared type carries a remote name, or a data descriptor whose namesake's accessor
  carries one; the remote name is paired with the member's own name as cookie.
\<close>

fun override_of :: "class_table \<Rightarrow> cname \<Rightarrow> string \<times> pyattr \<Rightarrow> override list" where
  "override_of ct klass (name, item) =
     (case getattr ct klass name of
        None \<Rightarrow> []
      | Some original \<Rightarrow>
          (case kind item of
             Function \<Rightarrow>
               (case jsii_name original of
                  None \<Rightarrow> []
                | Some n \<Rightarrow> [Override (Some n) None (Some name)])
           | DataDescriptor \<Rightarrow>
               (case fget original of
                  None \<Rightarrow> []
                | Some getter \<Rightarrow>
                    (case jsii_name getter of
                       None \<Rightarrow> []
                     | Some n \<Rightarrow> [Override None (Some n) (Some name)]))
           | Other \<Rightarrow> []))"

definition expected_overrides :: "class_table \<Rightarrow> cname \<Rightarrow> cname \<Rightarrow> override list" where
  "expected_overrides ct klass type_obj =
     concat (map (override_of ct klass) (ancestor_members ct klass type_obj))"

text \<open>
  A collision the walk cannot get past: a data descriptor whose namesake on the declared
  type has no \<^verbatim>\<open>fget\<close> attribute at all.
\<close>

fun fget_missing :: "class_table \<Rightarrow> cname \<Rightarrow> string \<times> pyattr \<Rightarrow> bool" where
  "fget_missing ct klass (name, item) =
     (kind item = DataDescriptor \<and>
      (case getattr ct klass name of None \<Rightarrow> False | Some original \<Rightarrow> fget original = None))"

definition accessor_missing :: "class_table \<Rightarrow> cname \<Rightarrow> cname \<Rightarrow> bool" where
  "accessor_missing ct klass type_obj =
     list_ex (fget_missing ct klass) (ancestor_members ct klass type_obj)"

section \<open>Vocabulary of the statements\<close>

text \<open>A value that is itself a remote-reference marker.\<close>

fun is_marker :: "val \<Rightarrow> bool" where
  "is_marker (VRef r) = True"
| "is_marker v = False"

text \<open>
  What an operation leaves alone: the reference map, both registries and every object
  allocated before it began; it may allocate further objects.
\<close>

definition frame :: "'p world \<Rightarrow> 'p world \<Rightarrow> bool" where
  "frame w w' \<longleftrightarrow>
     refs w' = refs w \<and> types w' = types w \<and> data_types w' = data_types w \<and>
     next_id w \<le> next_id w' \<and> (\<forall>i<next_id w. heap w' i = heap w i)"

text \<open>A \<^verbatim>\<open>get\<close> method every call of which leaves all that alone.\<close>

definition framed :: "'p kernel_get \<Rightarrow> bool" where
  "framed kget \<longleftrightarrow> (\<forall>obj name w res w'. kget obj name w = Some (res, w') \<longrightarrow> frame w w')"

text \<open>
  The data-type branch of \<^verbatim>\<open>resolve\<close> in the specification's words: for each declared
  field, in order, one get request carrying the container's reference and the field name,
  its value dereferenced; the first failure ends it.
\<close>

fun fetch_fields ::
  "nat \<Rightarrow> 'p provider \<Rightarrow> class_table \<Rightarrow> objref \<Rightarrow> string list \<Rightarrow> ('p, val list) comp"
where
  "fetch_fields n P ct r [] w = Some (Inr [], w)"
| "fetch_fields n P ct r (name # names) w =
     (case round_trip (p_get P) (GetRequest r name) w of
        (Inl e, w1) \<Rightarrow> Some (Inl e, w1)
      | (Inr v, w1) \<Rightarrow>
          (case recursize_dereference ct (kernel_get n P ct) v w1 of
             None \<Rightarrow> None
           | Some (Inl e, w2) \<Rightarrow> Some (Inl e, w2)
           | Some (Inr v', w2) \<Rightarrow>
               (case fetch_fields n P ct r names w2 of
                  None \<Rightarrow> None
                | Some (Inl e, w3) \<Rightarrow> Some (Inl e, w3)
                | Some (Inr vs, w3) \<Rightarrow> Some (Inr (v' # vs), w3))))"

section \<open>A small class hierarchy to run the definitions on\<close>

definition object_class :: pyclass where
  "object_class =
     \<lparr>mro = [''object''], cdict = [], jsii_type = [], is_abstract = False,
      jsii_proxy_class = None\<rparr>"

definition greeter_class :: pyclass where
  "greeter_class =
     \<lparr>mro = [''Greeter'', ''object''],
      cdict =
        [(''__module__'', PyAttr Other None None),
         (''say_hello'', PyAttr Function (Some ''sayHello'') None),
         (''display_name'',
            PyAttr DataDescriptor None (Some (PyAttr Function (Some ''displayName'') None))),
         (''describe'', PyAttr Function None None)],
      jsii_type = ''demo.Greeter'', is_abstract = False, jsii_proxy_class = None\<rparr>"

definition polite_class :: pyclass where
  "polite_class =
     \<lparr>mro = [''Polite'', ''Greeter'', ''object''],
      cdict =
        [(''__module__'', PyAttr Other None None),
         (''say_hello'', PyAttr Function None None),
         (''display_name'',
            PyAttr DataDescriptor None (Some (PyAttr Function None None))),
         (''describe'', PyAttr Function None None),
         (''bow'', PyAttr Function None None)],
      jsii_type = ''demo.Greeter'', is_abstract = False, jsii_proxy_class = None\<rparr>"

definition clash_class :: pyclass where
  "clash_class =
     \<lparr>mro = [''Clash'', ''Greeter'', ''object''],
      cdict =
        [(''say_hello'',
            PyAttr DataDescriptor None (Some (PyAttr Function None None)))],
      jsii_type = ''demo.Greeter'', is_abstract = False, jsii_proxy_class = None\<rparr>"

definition shape_class :: pyclass where
  "shape_class =
     \<lparr>mro = [''Shape'', ''object''], cdict = [], jsii_type = ''demo.Shape'',
      is_abstract = True, jsii_proxy_class = Some ''ShapeProxy''\<rparr>"

definition shape_proxy_class :: pyclass where
  "shape_proxy_class =
     \<lparr>mro = [''ShapeProxy'', ''Shape'', ''object''], cdict = [], jsii_type = ''demo.Shape'',
      is_abstract = False, jsii_proxy_class = None\<rparr>"

definition demo_classes :: class_table where
  "demo_classes c =
     (if c = ''Greeter'' then greeter_class
      else if c = ''Polite'' then polite_class
      else if c = ''Clash'' then clash_class
      else if c = ''Shape'' then shape_class
      else if c = ''ShapeProxy'' then shape_proxy_class
      else object_class)"

section \<open>A provider and a state to run the definitions on\<close>

definition blank_instance :: pyinstance where
  "blank_instance = \<lparr>inst_class = ''object'', jsii_ref = None\<rparr>"

definition address_type :: data_type where
  "address_type = \<lparr>dt_jsii_type = ''demo.Address'', annotations = [''street'', ''owner'']\<rparr>"

definition demo_answers :: "request \<Rightarrow> exn + val" where
  "demo_answers req =
     (case req of
        GetRequest r property \<Rightarrow>
          (if property = ''street'' then Inr (VStr ''Main Street'')
           else if property = ''owner'' then Inr (VRef (ObjRef ''demo.Greeter@7''))
           else if property = ''friends'' then Inr (VList [VRef (ObjRef ''demo.Greeter@7'')])
           else if property = ''home'' then Inr (VRef (ObjRef ''demo.Address@2''))
           else if property = ''index'' then
             Inr (VDict [(VRef (ObjRef ''demo.Greeter@7''), VRef (ObjRef ''demo.Greeter@7''))])
           else if property = ''mystery'' then Inr (VRef (ObjRef ''demo.Unknown@3''))
           else Inl (ProviderError ''no such property''))
      | _ \<Rightarrow> Inl (ProviderError ''not a get request''))"

definition logging_provider :: "request list provider" where
  "logging_provider =
     \<lparr>p_load = (\<lambda>req log. (Inr (), log @ [req])),
      p_create = (\<lambda>req log.
         (case req of
            CreateRequest fqn args overrides \<Rightarrow> (Inr (ObjRef (fqn @ ''@1'')), log @ [req])
          | _ \<Rightarrow> (Inl (ProviderError ''not a create request''), log @ [req]))),
      p_delete = (\<lambda>req log. (Inr (), log @ [req])),
      p_get = (\<lambda>req log. (demo_answers req, log @ [req])),
      p_set = (\<lambda>req log. (Inr (), log @ [req])),
      p_sget = (\<lambda>req log. (Inr VNone, log @ [req])),
      p_sset = (\<lambda>req log. (Inr (), log @ [req])),
      p_invoke = (\<lambda>req log. (Inr VNone, log @ [req])),
      p_sinvoke = (\<lambda>req log. (Inr VNone, log @ [req])),
      p_stats = (\<lambda>req log. (Inr 0, log @ [req]))\<rparr>"

definition failing_provider :: "request list provider" where
  "failing_provider =
     \<lparr>p_load = (\<lambda>req log. (Inl (ProviderError ''pipe closed''), log @ [req])),
      p_create = (\<lambda>req log. (Inl (ProviderError ''pipe closed''), log @ [req])),
      p_delete = (\<lambda>req log. (Inl (ProviderError ''pipe closed''), log @ [req])),
      p_get = (\<lambda>req log. (Inl (ProviderError ''pipe closed''), log @ [req])),
      p_set = (\<lambda>req log. (Inl (ProviderError ''pipe closed''), log @ [req])),
      p_sget = (\<lambda>req log. (Inl (ProviderError ''pipe closed''), log @ [req])),
      p_sset = (\<lambda>req log. (Inl (ProviderError ''pipe closed''), log @ [req])),
      p_invoke = (\<lambda>req log. (Inl (ProviderError ''pipe closed''), log @ [req])),
      p_sinvoke = (\<lambda>req log. (Inl (ProviderError ''pipe closed''), log @ [req])),
      p_stats = (\<lambda>req log. (Inl (ProviderError ''pipe closed''), log @ [req]))\<rparr>"

definition demo_world :: "request list world" where
  "demo_world =
     \<lparr>heap = (\<lambda>i. if i = 0 then \<lparr>inst_class = ''Polite'', jsii_ref = None\<rparr>
                   else if i = 1 then \<lparr>inst_class = ''Clash'', jsii_ref = None\<rparr>
                   else blank_instance),
      next_id = 2,
      refs = Map.empty,
      types = [''demo.Greeter'' \<mapsto> ''Greeter'', ''demo.Shape'' \<mapsto> ''Shape''],
      data_types = [''demo.Address'' \<mapsto> address_type],
      pstate = []\<rparr>"

text \<open>
  The request \<^verbatim>\<open>create\<close> sends for instance \<open>0\<close> of \<open>demo_world\<close>, and the state after the
  provider has answered it.
\<close>

definition demo_create_request :: request where
  "demo_create_request =
     CreateRequest ''demo.Greeter'' []
       [Override (Some ''sayHello'') None (Some ''say_hello''),
        Override None (Some ''displayName'') (Some ''display_name'')]"

definition created_world :: "request list world" where
  "created_world =
     demo_world\<lparr>pstate := [demo_create_request],
                heap := (heap demo_world)
                  (0 := \<lparr>inst_class = ''Polite'', jsii_ref = Some (ObjRef ''demo.Greeter@1'')\<rparr>)\<rparr>"

section \<open>Override discovery: what is recorded\<close>

lemma items_loop_eq:
  "items_loop ct klass items acc =
     (if list_ex (fget_missing ct klass) items then Inl (AttributeError ''fget'')
      else Inr (acc @ concat (map (override_of ct klass) items)))"
proof (induction items arbitrary: acc)
  case Nil
  show ?case by simp
next
  case (Cons p items)
  obtain name item where p: "p = (name, item)" by (cases p)
  show ?case
    unfolding p
    by (cases "kind item")
       (auto simp: Cons.IH isfunction_def isdatadescriptor_def hasattr_jsii_name_def
             split: option.splits)
qed

lemma mro_loop_eq:
  "mro_loop ct klass cs acc =
     (if list_ex (fget_missing ct klass)
           (concat (map (\<lambda>c. cdict (ct c)) (takeWhile (\<lambda>c. c \<noteq> klass) cs)))
      then Inl (AttributeError ''fget'')
      else Inr (acc @ concat (map (override_of ct klass)
                  (concat (map (\<lambda>c. cdict (ct c)) (takeWhile (\<lambda>c. c \<noteq> klass) cs))))))"
  by (induction cs arbitrary: acc) (auto simp: items_loop_eq)

lemma get_overides_eq:
  "get_overides ct klass type_obj =
     (if accessor_missing ct klass type_obj then Inl (AttributeError ''fget'')
      else Inr (expected_overrides ct klass type_obj))"
  by (simp add: get_overides_def mro_loop_eq accessor_missing_def expected_overrides_def
        ancestor_members_def intermediate_ancestors_def)

lemma in_override_of:
  "ov \<in> set (override_of ct klass (name, item)) \<longleftrightarrow>
     (\<exists>original. getattr ct klass name = Some original \<and>
        (kind item = Function \<and>
           (\<exists>n. jsii_name original = Some n \<and> ov = Override (Some n) None (Some name)) \<or>
         kind item = DataDescriptor \<and>
           (\<exists>getter n. fget original = Some getter \<and> jsii_name getter = Some n \<and>
              ov = Override None (Some n) (Some name))))"
proof (cases "getattr ct klass name")
  case None
  then show ?thesis by simp
next
  case g: (Some original)
  show ?thesis
  proof (cases "kind item")
    case Function
    with g show ?thesis by (cases "jsii_name original") auto
  next
    case DataDescriptor
    show ?thesis
    proof (cases "fget original")
      case None
      with g DataDescriptor show ?thesis by simp
    next
      case (Some getter)
      with g DataDescriptor show ?thesis by (cases "jsii_name getter") auto
    qed
  next
    case Other
    with g show ?thesis by simp
  qed
qed

lemma in_expected_overrides:
  "ov \<in> set (expected_overrides ct klass type_obj) \<longleftrightarrow>
     (\<exists>c name item original.
        c \<in> set (intermediate_ancestors ct klass type_obj) \<and>
        (name, item) \<in> set (cdict (ct c)) \<and>
        getattr ct klass name = Some original \<and>
        (kind item = Function \<and>
           (\<exists>n. jsii_name original = Some n \<and> ov = Override (Some n) None (Some name)) \<or>
         kind item = DataDescriptor \<and>
           (\<exists>getter n. fget original = Some getter \<and> jsii_name getter = Some n \<and>
              ov = Override None (Some n) (Some name))))"
  (is "?L \<longleftrightarrow> ?R")
proof
  assume ?L
  then obtain c name item where c: "c \<in> set (intermediate_ancestors ct klass type_obj)"
    and m: "(name, item) \<in> set (cdict (ct c))"
    and ov: "ov \<in> set (override_of ct klass (name, item))"
    by (auto simp: expected_overrides_def ancestor_members_def simp del: override_of.simps)
  from ov obtain original where g: "getattr ct klass name = Some original"
    and k: "kind item = Function \<and>
           (\<exists>n. jsii_name original = Some n \<and> ov = Override (Some n) None (Some name)) \<or>
         kind item = DataDescriptor \<and>
           (\<exists>getter n. fget original = Some getter \<and> jsii_name getter = Some n \<and>
              ov = Override None (Some n) (Some name))"
    unfolding in_override_of by blast
  from c m g k show ?R by blast
next
  assume ?R
  then obtain c name item original where c: "c \<in> set (intermediate_ancestors ct klass type_obj)"
    and m: "(name, item) \<in> set (cdict (ct c))"
    and g: "getattr ct klass name = Some original"
    and k: "kind item = Function \<and>
           (\<exists>n. jsii_name original = Some n \<and> ov = Override (Some n) None (Some name)) \<or>
         kind item = DataDescriptor \<and>
           (\<exists>getter n. fget original = Some getter \<and> jsii_name getter = Some n \<and>
              ov = Override None (Some n) (Some name))"
    by blast
  from g k have "ov \<in> set (override_of ct klass (name, item))"
    unfolding in_override_of by blast
  moreover from c m have "(name, item) \<in> set (ancestor_members ct klass type_obj)"
    by (auto simp: ancestor_members_def)
  ultimately show ?L
    by (auto simp: expected_overrides_def simp del: override_of.simps)
qed

lemma accessor_missing_iff:
  "accessor_missing ct klass type_obj \<longleftrightarrow>
     (\<exists>c name item original.
        c \<in> set (intermediate_ancestors ct klass type_obj) \<and>
        (name, item) \<in> set (cdict (ct c)) \<and>
        kind item = DataDescriptor \<and>
        getattr ct klass name = Some original \<and> fget original = None)"
proof -
  have "fget_missing ct klass p \<longleftrightarrow>
          (\<exists>original. kind (snd p) = DataDescriptor \<and>
             getattr ct klass (fst p) = Some original \<and> fget original = None)" for p
    by (cases p) (auto split: option.splits)
  then have "accessor_missing ct klass type_obj \<longleftrightarrow>
      (\<exists>p \<in> set (ancestor_members ct klass type_obj).
         \<exists>original. kind (snd p) = DataDescriptor \<and>
             getattr ct klass (fst p) = Some original \<and> fget original = None)"
    by (simp add: accessor_missing_def list_ex_iff)
  also have "\<dots> \<longleftrightarrow>
     (\<exists>c name item original.
        c \<in> set (intermediate_ancestors ct klass type_obj) \<and>
        (name, item) \<in> set (cdict (ct c)) \<and>
        kind item = DataDescriptor \<and>
        getattr ct klass name = Some original \<and> fget original = None)"
  proof
    assume "\<exists>p \<in> set (ancestor_members ct klass type_obj).
         \<exists>original. kind (snd p) = DataDescriptor \<and>
             getattr ct klass (fst p) = Some original \<and> fget original = None"
    then obtain p original where p: "p \<in> set (ancestor_members ct klass type_obj)"
      and k: "kind (snd p) = DataDescriptor"
      and g: "getattr ct klass (fst p) = Some original" "fget original = None"
      by blast
    from p obtain c where c: "c \<in> set (intermediate_ancestors ct klass type_obj)"
      and m: "(fst p, snd p) \<in> set (cdict (ct c))"
      by (auto simp: ancestor_members_def)
    from c m k g show "\<exists>c name item original.
        c \<in> set (intermediate_ancestors ct klass type_obj) \<and>
        (name, item) \<in> set (cdict (ct c)) \<and>
        kind item = DataDescriptor \<and>
        getattr ct klass name = Some original \<and> fget original = None"
      by blast
  next
    assume "\<exists>c name item original.
        c \<in> set (intermediate_ancestors ct klass type_obj) \<and>
        (name, item) \<in> set (cdict (ct c)) \<and>
        kind item = DataDescriptor \<and>
        getattr ct klass name = Some original \<and> fget original = None"
    then obtain c name item original
      where c: "c \<in> set (intermediate_ancestors ct klass type_obj)"
      and m: "(name, item) \<in> set (cdict (ct c))"
      and k: "kind (snd (name, item)) = DataDescriptor"
      and g: "getattr ct klass (fst (name, item)) = Some original" "fget original = None"
      by auto
    from c m have "(name, item) \<in> set (ancestor_members ct klass type_obj)"
      by (auto simp: ancestor_members_def)
    with k g show "\<exists>p \<in> set (ancestor_members ct klass type_obj).
         \<exists>original. kind (snd p) = DataDescriptor \<and>
             getattr ct klass (fst p) = Some original \<and> fget original = None"
      by blast
  qed
  finally show ?thesis .
qed

text \<open>
  Claim C5. The walk over the instance's MRO stops at the declared remote type; an
  Override is recorded exactly for the members of the ancestors before it that are plain
  functions whose namesake on the declared type carries a remote name, or data descriptors
  whose namesake's accessor carries one, each pairing the remote name with the ancestor's
  member name as cookie, in the order of the walk; a namesake that is not remote-bound
  yields nothing. This is the result whenever the walk does not meet a data descriptor
  whose namesake lacks an accessor (see \<open>accessor_missing\<close>).
\<close>

theorem get_overides_exact:
  assumes "\<not> accessor_missing ct klass type_obj"
  shows "\<exists>overrides. get_overides ct klass type_obj = Inr overrides \<and>
           overrides = expected_overrides ct klass type_obj \<and>
           (\<forall>ov. ov \<in> set overrides \<longleftrightarrow>
             (\<exists>c name item original.
                c \<in> set (intermediate_ancestors ct klass type_obj) \<and>
                (name, item) \<in> set (cdict (ct c)) \<and>
                getattr ct klass name = Some original \<and>
                (kind item = Function \<and>
                   (\<exists>n. jsii_name original = Some n \<and>
                      ov = Override (Some n) None (Some name)) \<or>
                 kind item = DataDescriptor \<and>
                   (\<exists>getter n. fget original = Some getter \<and> jsii_name getter = Some n \<and>
                      ov = Override None (Some n) (Some name)))))"
  using assms by (simp add: get_overides_eq in_expected_overrides)

lemmas demo_class_defs =
  demo_classes_def greeter_class_def polite_class_def clash_class_def
  object_class_def shape_class_def shape_proxy_class_def

text \<open>
  On the demonstration hierarchy: \<open>Polite\<close> redefines the remote method \<open>say_hello\<close>, the
  remote property \<open>display_name\<close> and the local helper \<open>describe\<close>, and adds \<open>bow\<close>.
\<close>

lemma demo_expected: "expected_overrides demo_classes ''Greeter'' ''Polite'' =
   [Override (Some ''sayHello'') None (Some ''say_hello''),
    Override None (Some ''displayName'') (Some ''display_name'')]"
  by (simp add: expected_overrides_def ancestor_members_def intermediate_ancestors_def
        getattr_def demo_classes_def greeter_class_def polite_class_def object_class_def)

lemma demo_not_missing: "\<not> accessor_missing demo_classes ''Greeter'' ''Polite''"
  by (simp add: accessor_missing_def ancestor_members_def intermediate_ancestors_def
        getattr_def demo_classes_def greeter_class_def polite_class_def object_class_def)

theorem get_overides_exact_witness:
  "\<not> accessor_missing demo_classes ''Greeter'' ''Polite'' \<and>
   get_overides demo_classes ''Greeter'' ''Polite'' =
     Inr [Override (Some ''sayHello'') None (Some ''say_hello''),
          Override None (Some ''displayName'') (Some ''display_name'')]"
  using get_overides_exact [OF demo_not_missing] demo_not_missing demo_expected
  by simp

section \<open>What resolution and dereferencing leave alone\<close>

lemma frame_refl: "frame w w"
  by (simp add: frame_def)

lemma frame_trans: "frame w w1 \<Longrightarrow> frame w1 w2 \<Longrightarrow> frame w w2"
  by (auto simp: frame_def)

lemma frame_round_trip: "round_trip m req w = (res, w') \<Longrightarrow> frame w w'"
  by (auto simp: round_trip_def frame_def split: prod.splits)

lemma frame_new_instance: "new_instance ct klass r w = (res, w') \<Longrightarrow> frame w w'"
  by (auto simp: new_instance_def frame_def Let_def split: if_splits)

lemma framedD: "framed kget \<Longrightarrow> kget obj name w = Some (res, w') \<Longrightarrow> frame w w'"
  by (auto simp: framed_def)

lemma frame_fields_loop:
  "framed kget \<Longrightarrow> fields_loop kget r names inst w = Some (res, w') \<Longrightarrow> frame w w'"
proof (induction names arbitrary: inst w)
  case Nil
  then show ?case by (simp add: frame_refl)
next
  case (Cons name names)
  from Cons.prems(2) obtain res1 w1 where g: "kget (FakeReference r) name w = Some (res1, w1)"
    by (auto split: option.splits)
  have f1: "frame w w1" by (rule framedD [OF Cons.prems(1) g])
  show ?case
  proof (cases res1)
    case (Inl e)
    with Cons.prems g f1 show ?thesis by simp
  next
    case (Inr v)
    with Cons.prems g
    have "fields_loop kget r names (AList.update (VStr name) v inst) w1 = Some (res, w')"
      by simp
    then have "frame w1 w'" by (rule Cons.IH [OF Cons.prems(1)])
    with f1 show ?thesis by (rule frame_trans)
  qed
qed

lemma frame_resolve:
  assumes k: "framed kget"
    and a: "resolve ct kget r w = Some (res, w')"
  shows "frame w w'"
proof (cases "refs w (ref r)")
  case (Some inst)
  with a show ?thesis by (simp add: resolve_def frame_refl)
next
  case None
  note miss = this
  show ?thesis
  proof (cases "types w (rsplit_head (ref r))")
    case (Some klass)
    with a miss show ?thesis
      by (auto simp: resolve_def Let_def frame_refl split: if_splits option.splits
            dest: frame_new_instance)
  next
    case None
    with a miss show ?thesis
      by (auto simp: resolve_def Let_def frame_refl split: option.splits
            dest: frame_fields_loop [OF k])
  qed
qed

lemma frame_deref:
  "framed kget \<Longrightarrow> recursize_dereference ct kget v w = Some (res, w') \<Longrightarrow> frame w w'"
  "framed kget \<Longrightarrow> deref_items ct kget items w = Some (ires, w') \<Longrightarrow> frame w w'"
proof (induction ct kget v w and ct kget items w arbitrary: res w' and ires w'
        rule: recursize_dereference_deref_items.induct)
  case (1 ct kget items w)
  then show ?case by (auto split: option.splits sum.splits)
next
  case (2 ct kget r w)
  then show ?case by (auto dest: frame_resolve)
next
  case (10 ct kget k v rest w)
  note kf = "10.prems"(1)
  from "10.prems"(2) obtain r1 w1 where d: "recursize_dereference ct kget v w = Some (r1, w1)"
    by (auto split: option.splits)
  from "10.IH"(1) kf d have f1: "frame w w1" by blast
  show ?case
  proof (cases r1)
    case (Inl e)
    with "10.prems"(2) d f1 show ?thesis by simp
  next
    case (Inr v')
    with "10.prems"(2) d obtain r2 where d2: "deref_items ct kget rest w1 = Some (r2, w')"
      by (auto split: option.splits sum.splits)
    from "10.IH"(2) d Inr kf d2 have "frame w1 w'" by blast
    with f1 show ?thesis by (rule frame_trans)
  qed
qed (auto simp: frame_refl)

lemma frame_dereferenced:
  assumes k: "framed kget"
    and f: "\<And>w res w'. fn w = (res, w') \<Longrightarrow> frame w w'"
    and a: "dereferenced ct kget fn w = Some (res, w')"
  shows "frame w w'"
proof (cases "fn w")
  case (Pair r1 w1)
  have f1: "frame w w1" by (rule f [OF Pair])
  show ?thesis
  proof (cases r1)
    case (Inl e)
    with a Pair f1 show ?thesis by (simp add: dereferenced_def)
  next
    case (Inr v)
    with a Pair have "recursize_dereference ct kget v w1 = Some (res, w')"
      by (simp add: dereferenced_def)
    then have "frame w1 w'" by (rule frame_deref(1) [OF k])
    with f1 show ?thesis by (rule frame_trans)
  qed
qed

lemma frame_get_body: "get_body P obj property w = (res, w') \<Longrightarrow> frame w w'"
  by (auto simp: get_body_def with_jsii_ref_def frame_refl split: option.splits
        dest: frame_round_trip)

lemma framed_kernel_get: "framed (kernel_get n P ct)"
proof (induction n)
  case 0
  show ?case by (simp add: framed_def)
next
  case (Suc n)
  show ?case
    unfolding framed_def
  proof (intro allI impI)
    fix obj name w res w'
    assume "kernel_get (Suc n) P ct obj name w = Some (res, w')"
    then have d: "dereferenced ct (kernel_get n P ct) (get_body P obj name) w = Some (res, w')"
      by simp
    have f: "\<And>w res w'. get_body P obj name w = (res, w') \<Longrightarrow> frame w w'"
      by (rule frame_get_body)
    show "frame w w'"
      by (rule frame_dereferenced [OF Suc.IH f d])
  qed
qed

lemma update_fresh_key: "k \<notin> fst ` set al \<Longrightarrow> AList.update k v al = al @ [(k, v)]"
  by (induction al) auto

lemma kernel_get_fake:
  "kernel_get (Suc n) P ct (FakeReference r) name w =
     (case round_trip (p_get P) (GetRequest r name) w of
        (Inl e, w1) \<Rightarrow> Some (Inl e, w1)
      | (Inr v, w1) \<Rightarrow> recursize_dereference ct (kernel_get n P ct) v w1)"
  by (simp add: dereferenced_def get_body_def with_jsii_ref_def jsii_ref_of_def)

lemma fields_loop_fetch:
  "distinct names \<Longrightarrow> VStr ` set names \<inter> fst ` set inst = {} \<Longrightarrow>
   fields_loop (kernel_get (Suc n) P ct) r names inst w =
     (case fetch_fields n P ct r names w of
        None \<Rightarrow> None
      | Some (Inl e, w') \<Rightarrow> Some (Inl e, w')
      | Some (Inr vs, w') \<Rightarrow> Some (Inr (VDict (inst @ zip (map VStr names) vs)), w'))"
proof (induction names arbitrary: inst w)
  case Nil
  show ?case by simp
next
  case (Cons name names)
  have fresh: "VStr name \<notin> fst ` set inst" using Cons.prems(2) by auto
  have ih: "fields_loop (kernel_get (Suc n) P ct) r names (inst @ [(VStr name, v)]) w1 =
     (case fetch_fields n P ct r names w1 of
        None \<Rightarrow> None
      | Some (Inl e, w') \<Rightarrow> Some (Inl e, w')
      | Some (Inr vs, w') \<Rightarrow>
          Some (Inr (VDict ((inst @ [(VStr name, v)]) @ zip (map VStr names) vs)), w'))" for v w1
    using Cons.prems by (intro Cons.IH) auto
  show ?case
    unfolding fields_loop.simps kernel_get_fake fetch_fields.simps
    by (auto simp: update_fresh_key [OF fresh] ih simp del: kernel_get.simps
          split: prod.splits sum.splits option.splits)
qed

section \<open>The demonstration state, evaluated\<close>

lemma rsplit_demo:
  "rsplit_head ''demo.Greeter@7'' = ''demo.Greeter''"
  "rsplit_head ''demo.Greeter@1'' = ''demo.Greeter''"
  "rsplit_head ''demo.Address@2'' = ''demo.Address''"
  "rsplit_head ''demo.Unknown@3'' = ''demo.Unknown''"
  "rsplit_head ''demo.Shape@4'' = ''demo.Shape''"
  by (simp_all add: rsplit_head_def)

lemma demo_world_simps:
  "refs demo_world = Map.empty"
  "next_id demo_world = 2"
  "pstate demo_world = []"
  "types demo_world ''demo.Greeter'' = Some ''Greeter''"
  "types demo_world ''demo.Shape'' = Some ''Shape''"
  "types demo_world ''demo.Address'' = None"
  "types demo_world ''demo.Unknown'' = None"
  "data_types demo_world ''demo.Address'' = Some address_type"
  "data_types demo_world ''demo.Unknown'' = None"
  "heap demo_world 0 = \<lparr>inst_class = ''Polite'', jsii_ref = None\<rparr>"
  "heap demo_world 1 = \<lparr>inst_class = ''Clash'', jsii_ref = None\<rparr>"
  by (simp_all add: demo_world_def)

lemma demo_abstract:
  "\<not> is_abstract (demo_classes ''Greeter'')"
  "is_abstract (demo_classes ''Shape'')"
  "jsii_proxy_class (demo_classes ''Shape'') = Some ''ShapeProxy''"
  "\<not> is_abstract (demo_classes ''ShapeProxy'')"
  "jsii_type (demo_classes ''Greeter'') = ''demo.Greeter''"
  by (simp_all add: demo_class_defs)

lemma demo_resolve_greeter:
  "resolve demo_classes kget (ObjRef ''demo.Greeter@7'') demo_world
     = Some (Inr (VInst 2),
             demo_world\<lparr>heap := (heap demo_world)
                          (2 := \<lparr>inst_class = ''Greeter'',
                                 jsii_ref = Some (ObjRef ''demo.Greeter@7'')\<rparr>),
                        next_id := 3\<rparr>)"
  by (simp add: resolve_def new_instance_def demo_world_simps rsplit_demo demo_abstract)

lemma demo_get_overides:
  "get_overides demo_classes ''Greeter'' ''Polite'' =
     Inr [Override (Some ''sayHello'') None (Some ''say_hello''),
          Override None (Some ''displayName'') (Some ''display_name'')]"
  by (simp add: get_overides_eq demo_not_missing demo_expected)

lemma demo_create:
  "create logging_provider demo_classes ''Greeter'' 0 None demo_world
     = (Inr (ObjRef ''demo.Greeter@1''), created_world)"
  by (simp add: create_def demo_get_overides demo_world_simps demo_abstract round_trip_def
        logging_provider_def created_world_def demo_create_request_def)

lemma created_world_simps:
  "pstate created_world = [demo_create_request]"
  "heap created_world 0 = \<lparr>inst_class = ''Polite'', jsii_ref = Some (ObjRef ''demo.Greeter@1'')\<rparr>"
  "jsii_ref_of created_world (Instance 0) = Some (ObjRef ''demo.Greeter@1'')"
  by (simp_all add: created_world_def jsii_ref_of_def)

text \<open>
  Claim C10. When an ancestor before the declared remote type defines a data descriptor
  whose namesake on the declared type has no \<^verbatim>\<open>fget\<close> attribute, \<^verbatim>\<open>_get_overides\<close> raises
  \<^verbatim>\<open>AttributeError\<close>, and so does \<^verbatim>\<open>create\<close>, before any request is sent and with the state
  untouched.
\<close>

theorem get_overides_raises_without_fget:
  assumes "c \<in> set (intermediate_ancestors ct klass (inst_class (heap w obj)))"
    and "(N, item) \<in> set (cdict (ct c))"
    and "kind item = DataDescriptor"
    and "getattr ct klass N = Some original"
    and "fget original = None"
  shows "get_overides ct klass (inst_class (heap w obj)) = Inl (AttributeError ''fget'') \<and>
         create P ct klass obj args w = (Inl (AttributeError ''fget''), w)"
proof -
  from assms have "accessor_missing ct klass (inst_class (heap w obj))"
    unfolding accessor_missing_iff by blast
  then have "get_overides ct klass (inst_class (heap w obj)) = Inl (AttributeError ''fget'')"
    by (simp add: get_overides_eq)
  then show ?thesis by (simp add: create_def)
qed

theorem get_overides_raises_without_fget_witness:
  "''Clash'' \<in> set (intermediate_ancestors demo_classes ''Greeter''
                      (inst_class (heap demo_world 1))) \<and>
   (''say_hello'', PyAttr DataDescriptor None (Some (PyAttr Function None None)))
     \<in> set (cdict (demo_classes ''Clash'')) \<and>
   getattr demo_classes ''Greeter'' ''say_hello''
     = Some (PyAttr Function (Some ''sayHello'') None) \<and>
   get_overides demo_classes ''Greeter'' (inst_class (heap demo_world 1))
     = Inl (AttributeError ''fget'') \<and>
   create logging_provider demo_classes ''Greeter'' 1 None demo_world
     = (Inl (AttributeError ''fget''), demo_world)"
proof -
  have a: "''Clash'' \<in> set (intermediate_ancestors demo_classes ''Greeter''
                      (inst_class (heap demo_world 1)))"
    by (simp add: intermediate_ancestors_def demo_world_def demo_class_defs)
  have b: "(''say_hello'', PyAttr DataDescriptor None (Some (PyAttr Function None None)))
     \<in> set (cdict (demo_classes ''Clash''))"
    by (simp add: demo_class_defs)
  have c: "kind (PyAttr DataDescriptor None (Some (PyAttr Function None None))) = DataDescriptor"
    by simp
  have d: "getattr demo_classes ''Greeter'' ''say_hello''
     = Some (PyAttr Function (Some ''sayHello'') None)"
    by (simp add: getattr_def demo_class_defs)
  have e: "fget (PyAttr Function (Some ''sayHello'') None) = None" by simp
  from get_overides_raises_without_fget [OF a b c d e, of logging_provider None] a b d
  show ?thesis by simp
qed

section \<open>Resolution of remote references\<close>

text \<open>
  Claim C1, as the code has it. \<^verbatim>\<open>resolve\<close> returns the object the map holds for a
  reference and changes nothing; it never adds to the map. So identity is preserved for a
  proxy that was registered (by \<^verbatim>\<open>register\<close>) and is still reachable: once an instance bound
  to \<open>r\<close> is registered, every resolution of \<open>r\<close> returns that very instance, also after a
  collection that reclaimed other objects only.
\<close>

theorem resolve_registered_identity:
  assumes "jsii_ref (heap w inst) = Some r"
    and "inst \<notin> set dead"
  shows "register inst w = (Inr (), snd (register inst w)) \<and>
         resolve ct kget r (snd (register inst w))
           = Some (Inr (VInst inst), snd (register inst w)) \<and>
         resolve ct kget r (collect dead (snd (register inst w)))
           = Some (Inr (VInst inst), collect dead (snd (register inst w)))"
  using assms by (simp add: register_def resolve_def collect_def)

theorem resolve_registered_identity_witness:
  "jsii_ref (heap created_world 0) = Some (ObjRef ''demo.Greeter@1'') \<and>
   (0::nat) \<notin> set [1] \<and>
   register 0 created_world = (Inr (), snd (register 0 created_world)) \<and>
   resolve demo_classes (kernel_get 1 logging_provider demo_classes)
     (ObjRef ''demo.Greeter@1'') (snd (register 0 created_world))
       = Some (Inr (VInst 0), snd (register 0 created_world)) \<and>
   resolve demo_classes (kernel_get 1 logging_provider demo_classes)
     (ObjRef ''demo.Greeter@1'') (collect [1] (snd (register 0 created_world)))
       = Some (Inr (VInst 0), collect [1] (snd (register 0 created_world)))"
proof -
  have a: "jsii_ref (heap created_world 0) = Some (ObjRef ''demo.Greeter@1'')"
    by (simp add: created_world_def)
  have b: "(0::nat) \<notin> set [1]" by simp
  from resolve_registered_identity [OF a b, of demo_classes
         "kernel_get 1 logging_provider demo_classes"] a b
  show ?thesis by simp
qed

text \<open>
  Claim C1 as stated fails for a proxy created lazily by the first resolution: nothing
  was registered, so the second resolution of the same reference, the first proxy still
  there, allocates another object (identity 3, not 2).
\<close>

theorem resolve_twice_two_proxies:
  "map_option fst (resolve demo_classes (kernel_get 1 logging_provider demo_classes)
      (ObjRef ''demo.Greeter@7'') demo_world) = Some (Inr (VInst 2)) \<and>
   map_option fst (resolve demo_classes (kernel_get 1 logging_provider demo_classes)
      (ObjRef ''demo.Greeter@7'')
      (snd (the (resolve demo_classes (kernel_get 1 logging_provider demo_classes)
         (ObjRef ''demo.Greeter@7'') demo_world)))) = Some (Inr (VInst 3))"
  by (simp add: demo_resolve_greeter)
     (simp add: resolve_def new_instance_def demo_world_simps rsplit_demo demo_abstract)

text \<open>
  Claim C4, as the code has it. For a reference the map does not hold whose type name is
  registered as an object type, \<^verbatim>\<open>resolve\<close> allocates a fresh instance (the next identity)
  of the registered class, or of its designated concrete proxy class when the registered
  class is abstract, assigns the reference to it and returns it. Nothing else changes: no
  initializer runs (the provider is not called), and the map gets no entry.
\<close>

theorem resolve_allocates_proxy:
  assumes "refs w (ref r) = None"
    and "types w (rsplit_head (ref r)) = Some klass"
    and "(if is_abstract (ct klass) then jsii_proxy_class (ct klass) else Some klass)
           = Some concrete"
    and "\<not> is_abstract (ct concrete)"
  shows "resolve ct kget r w =
           Some (Inr (VInst (next_id w)),
                 w\<lparr>heap := (heap w)(next_id w := \<lparr>inst_class = concrete, jsii_ref = Some r\<rparr>),
                   next_id := Suc (next_id w)\<rparr>) \<and>
         refs (w\<lparr>heap := (heap w)(next_id w := \<lparr>inst_class = concrete, jsii_ref = Some r\<rparr>),
                 next_id := Suc (next_id w)\<rparr>) (ref r) = None"
  using assms by (auto simp: resolve_def new_instance_def Let_def split: if_splits)

theorem resolve_allocates_proxy_witness:
  "refs demo_world (ref (ObjRef ''demo.Shape@4'')) = None \<and>
   types demo_world (rsplit_head (ref (ObjRef ''demo.Shape@4''))) = Some ''Shape'' \<and>
   is_abstract (demo_classes ''Shape'') \<and>
   jsii_proxy_class (demo_classes ''Shape'') = Some ''ShapeProxy'' \<and>
   \<not> is_abstract (demo_classes ''ShapeProxy'') \<and>
   resolve demo_classes (kernel_get 1 logging_provider demo_classes)
     (ObjRef ''demo.Shape@4'') demo_world
     = Some (Inr (VInst 2),
             demo_world\<lparr>heap := (heap demo_world)
                          (2 := \<lparr>inst_class = ''ShapeProxy'',
                                 jsii_ref = Some (ObjRef ''demo.Shape@4'')\<rparr>),
                        next_id := 3\<rparr>)"
proof -
  have a: "refs demo_world (ref (ObjRef ''demo.Shape@4'')) = None"
    by (simp add: demo_world_simps)
  have b: "types demo_world (rsplit_head (ref (ObjRef ''demo.Shape@4''))) = Some ''Shape''"
    by (simp add: demo_world_simps rsplit_demo)
  have c: "(if is_abstract (demo_classes ''Shape'') then jsii_proxy_class (demo_classes ''Shape'')
            else Some ''Shape'') = Some ''ShapeProxy''"
    by (simp add: demo_abstract)
  have d: "\<not> is_abstract (demo_classes ''ShapeProxy'')" by (simp add: demo_abstract)
  from resolve_allocates_proxy [OF a b c d, of "kernel_get 1 logging_provider demo_classes"]
    a b d
  show ?thesis by (simp add: demo_abstract demo_world_simps)
qed

text \<open>
  Claim C4 as stated fails in its registration step: after the resolution of a reference
  of a registered object type, the map still has no entry for it.
\<close>

theorem resolve_does_not_register:
  "map_option fst (resolve demo_classes (kernel_get 1 logging_provider demo_classes)
      (ObjRef ''demo.Greeter@7'') demo_world) = Some (Inr (VInst 2)) \<and>
   refs (snd (the (resolve demo_classes (kernel_get 1 logging_provider demo_classes)
      (ObjRef ''demo.Greeter@7'') demo_world))) ''demo.Greeter@7'' = None"
  by (simp add: demo_resolve_greeter demo_world_simps)

text \<open>
  Claim C6. For a reference the map does not hold whose type name is registered as a data
  type (and not as an object type, which is looked up first), \<^verbatim>\<open>resolve\<close> performs, for each
  declared field in order, one get request through the kernel that carries the container's
  reference and the field name; it returns the mapping from exactly the declared field
  names to the dereferenced answers, fails as the first failing request does, and leaves
  the reference map as it was.
\<close>

theorem resolve_data_value:
  assumes "refs w (ref r) = None"
    and "types w (rsplit_head (ref r)) = None"
    and "data_types w (rsplit_head (ref r)) = Some dt"
    and "distinct (annotations dt)"
  shows "resolve ct (kernel_get (Suc n) P ct) r w =
           (case fetch_fields n P ct r (annotations dt) w of
              None \<Rightarrow> None
            | Some (Inl e, w') \<Rightarrow> Some (Inl e, w')
            | Some (Inr vs, w') \<Rightarrow>
                Some (Inr (VDict (zip (map VStr (annotations dt)) vs)), w')) \<and>
         (\<forall>res w'. resolve ct (kernel_get (Suc n) P ct) r w = Some (res, w') \<longrightarrow>
            refs w' = refs w) \<and>
         (\<forall>v w'. resolve ct (kernel_get (Suc n) P ct) r w = Some (Inr v, w') \<longrightarrow>
            (\<exists>items. v = VDict items \<and> map fst items = map VStr (annotations dt)))"
proof -
  have eq: "resolve ct (kernel_get (Suc n) P ct) r w =
           (case fetch_fields n P ct r (annotations dt) w of
              None \<Rightarrow> None
            | Some (Inl e, w') \<Rightarrow> Some (Inl e, w')
            | Some (Inr vs, w') \<Rightarrow>
                Some (Inr (VDict (zip (map VStr (annotations dt)) vs)), w'))"
    using assms
    by (simp add: resolve_def fields_loop_fetch del: kernel_get.simps
          split: option.splits sum.splits prod.splits)
  have len: "length vs = length names"
    if "fetch_fields n P ct r names w0 = Some (Inr vs, w1)" for names vs w0 w1
    using that
    by (induction names arbitrary: vs w0 w1)
       (auto split: prod.splits sum.splits option.splits)
  have fr: "refs w' = refs w"
    if "resolve ct (kernel_get (Suc n) P ct) r w = Some (res, w')" for res w'
    using frame_resolve [OF framed_kernel_get that] by (simp add: frame_def)
  have shape: "\<exists>items. v = VDict items \<and> map fst items = map VStr (annotations dt)"
    if "resolve ct (kernel_get (Suc n) P ct) r w = Some (Inr v, w')" for v w'
  proof -
    from that eq obtain vs where f: "fetch_fields n P ct r (annotations dt) w = Some (Inr vs, w')"
      and v: "v = VDict (zip (map VStr (annotations dt)) vs)"
      by (auto split: option.splits sum.splits prod.splits)
    from len [OF f] v show ?thesis by simp
  qed
  from eq fr shape show ?thesis by blast
qed

theorem resolve_data_value_witness:
  "refs demo_world (ref (ObjRef ''demo.Address@2'')) = None \<and>
   types demo_world (rsplit_head (ref (ObjRef ''demo.Address@2''))) = None \<and>
   data_types demo_world (rsplit_head (ref (ObjRef ''demo.Address@2''))) = Some address_type \<and>
   distinct (annotations address_type) \<and>
   fetch_fields 0 logging_provider demo_classes (ObjRef ''demo.Address@2'')
       (annotations address_type) demo_world
     = Some (Inr [VStr ''Main Street'', VInst 2],
             demo_world\<lparr>heap := (heap demo_world)
                          (2 := \<lparr>inst_class = ''Greeter'',
                                 jsii_ref = Some (ObjRef ''demo.Greeter@7'')\<rparr>),
                        next_id := 3,
                        pstate := [GetRequest (ObjRef ''demo.Address@2'') ''street'',
                                   GetRequest (ObjRef ''demo.Address@2'') ''owner'']\<rparr>) \<and>
   resolve demo_classes (kernel_get (Suc 0) logging_provider demo_classes)
     (ObjRef ''demo.Address@2'') demo_world
   = Some (Inr (VDict [(VStr ''street'', VStr ''Main Street''), (VStr ''owner'', VInst 2)]),
           demo_world\<lparr>heap := (heap demo_world)
                          (2 := \<lparr>inst_class = ''Greeter'',
                                 jsii_ref = Some (ObjRef ''demo.Greeter@7'')\<rparr>),
                        next_id := 3,
                        pstate := [GetRequest (ObjRef ''demo.Address@2'') ''street'',
                                   GetRequest (ObjRef ''demo.Address@2'') ''owner'']\<rparr>) \<and>
   refs (demo_world\<lparr>heap := (heap demo_world)
                          (2 := \<lparr>inst_class = ''Greeter'',
                                 jsii_ref = Some (ObjRef ''demo.Greeter@7'')\<rparr>),
                        next_id := 3,
                        pstate := [GetRequest (ObjRef ''demo.Address@2'') ''street'',
                                   GetRequest (ObjRef ''demo.Address@2'') ''owner'']\<rparr>)
     = refs demo_world"
proof -
  have a: "refs demo_world (ref (ObjRef ''demo.Address@2'')) = None"
    by (simp add: demo_world_simps)
  have b: "types demo_world (rsplit_head (ref (ObjRef ''demo.Address@2''))) = None"
    by (simp add: demo_world_simps rsplit_demo)
  have c: "data_types demo_world (rsplit_head (ref (ObjRef ''demo.Address@2'')))
             = Some address_type"
    by (simp add: demo_world_simps rsplit_demo)
  have d: "distinct (annotations address_type)" by (simp add: address_type_def)
  have f: "fetch_fields 0 logging_provider demo_classes (ObjRef ''demo.Address@2'')
       (annotations address_type) demo_world
     = Some (Inr [VStr ''Main Street'', VInst 2],
             demo_world\<lparr>heap := (heap demo_world)
                          (2 := \<lparr>inst_class = ''Greeter'',
                                 jsii_ref = Some (ObjRef ''demo.Greeter@7'')\<rparr>),
                        next_id := 3,
                        pstate := [GetRequest (ObjRef ''demo.Address@2'') ''street'',
                                   GetRequest (ObjRef ''demo.Address@2'') ''owner'']\<rparr>)"
    by (simp add: address_type_def round_trip_def logging_provider_def demo_answers_def
          resolve_def demo_world_simps rsplit_demo new_instance_def demo_abstract)
  from resolve_data_value [OF a b c d, of demo_classes 0 logging_provider] a b c d f
  show ?thesis by (simp add: address_type_def)
qed

text \<open>
  Claim C7. For a reference the map does not hold whose type name is registered neither
  as an object type nor as a data type, \<^verbatim>\<open>resolve\<close> raises
  \<^verbatim>\<open>ValueError("Unknown type: ...")\<close> and leaves the whole state, the map included, as it was.
\<close>

theorem resolve_unknown_type:
  assumes "refs w (ref r) = None"
    and "types w (rsplit_head (ref r)) = None"
    and "data_types w (rsplit_head (ref r)) = None"
  shows "resolve ct kget r w
           = Some (Inl (ValueError (''Unknown type: '' @ rsplit_head (ref r))), w)"
  using assms by (simp add: resolve_def)

theorem resolve_unknown_type_witness:
  "refs demo_world (ref (ObjRef ''demo.Unknown@3'')) = None \<and>
   types demo_world (rsplit_head (ref (ObjRef ''demo.Unknown@3''))) = None \<and>
   data_types demo_world (rsplit_head (ref (ObjRef ''demo.Unknown@3''))) = None \<and>
   resolve demo_classes (kernel_get 1 logging_provider demo_classes)
     (ObjRef ''demo.Unknown@3'') demo_world
     = Some (Inl (ValueError ''Unknown type: demo.Unknown''), demo_world)"
proof -
  have a: "refs demo_world (ref (ObjRef ''demo.Unknown@3'')) = None"
    by (simp add: demo_world_simps)
  have b: "types demo_world (rsplit_head (ref (ObjRef ''demo.Unknown@3''))) = None"
    by (simp add: demo_world_simps rsplit_demo)
  have c: "data_types demo_world (rsplit_head (ref (ObjRef ''demo.Unknown@3''))) = None"
    by (simp add: demo_world_simps rsplit_demo)
  from resolve_unknown_type [OF a b c, of demo_classes "kernel_get 1 logging_provider demo_classes"]
    a b c
  show ?thesis by (simp add: rsplit_demo)
qed

section \<open>The kernel operations\<close>

text \<open>
  Claim C3, as the code has it. \<^verbatim>\<open>create\<close> computes the overrides of the instance against
  the type, sends the provider one create request with the type's fully qualified name,
  the constructor arguments (none when omitted) and those overrides, assigns the reference
  the provider returns to the instance, and returns it. It does not touch the reference
  map: registering the instance is left to a separate call of \<^verbatim>\<open>register\<close>.
\<close>

theorem create_binds_reference:
  assumes "get_overides ct klass (inst_class (heap w obj)) = Inr overrides"
    and "p_create P (CreateRequest (jsii_type (ct klass))
                      (case args of None \<Rightarrow> [] | Some a \<Rightarrow> a) overrides) (pstate w)
           = (Inr r, p')"
  shows "create P ct klass obj args w =
           (Inr r, w\<lparr>pstate := p',
                     heap := (heap w)(obj := (heap w obj)\<lparr>jsii_ref := Some r\<rparr>)\<rparr>) \<and>
         refs (snd (create P ct klass obj args w)) = refs w"
  using assms by (simp add: create_def round_trip_def Let_def)

theorem create_binds_reference_witness:
  "get_overides demo_classes ''Greeter'' (inst_class (heap demo_world 0)) =
     Inr [Override (Some ''sayHello'') None (Some ''say_hello''),
          Override None (Some ''displayName'') (Some ''display_name'')] \<and>
   p_create logging_provider demo_create_request (pstate demo_world)
     = (Inr (ObjRef ''demo.Greeter@1''), [demo_create_request]) \<and>
   create logging_provider demo_classes ''Greeter'' 0 None demo_world
     = (Inr (ObjRef ''demo.Greeter@1''), created_world) \<and>
   jsii_ref (heap created_world 0) = Some (ObjRef ''demo.Greeter@1'') \<and>
   refs created_world = refs demo_world"
proof -
  have a: "get_overides demo_classes ''Greeter'' (inst_class (heap demo_world 0)) =
     Inr [Override (Some ''sayHello'') None (Some ''say_hello''),
          Override None (Some ''displayName'') (Some ''display_name'')]"
    by (simp add: demo_world_simps demo_get_overides)
  have b: "p_create logging_provider
             (CreateRequest (jsii_type (demo_classes ''Greeter''))
                (case None of None \<Rightarrow> [] | Some a \<Rightarrow> a)
                [Override (Some ''sayHello'') None (Some ''say_hello''),
                 Override None (Some ''displayName'') (Some ''display_name'')])
             (pstate demo_world)
           = (Inr (ObjRef ''demo.Greeter@1''), [demo_create_request])"
    by (simp add: logging_provider_def demo_abstract demo_world_simps demo_create_request_def)
  from create_binds_reference [OF a b] a b
  show ?thesis
    by (simp add: created_world_def demo_abstract demo_world_simps demo_create_request_def)
qed

text \<open>
  Claim C3 as stated fails in its registration step: after \<^verbatim>\<open>create\<close> has returned the
  reference, the map has no entry for it.
\<close>

theorem create_does_not_register:
  "fst (create logging_provider demo_classes ''Greeter'' 0 None demo_world)
     = Inr (ObjRef ''demo.Greeter@1'') \<and>
   refs (snd (create logging_provider demo_classes ''Greeter'' 0 None demo_world))
     ''demo.Greeter@1'' = None"
  by (simp add: demo_create created_world_def demo_world_simps)

lemma round_trip_fails:
  "fst (m req (pstate w)) = Inl e \<Longrightarrow>
     round_trip m req w = (Inl e, w\<lparr>pstate := snd (m req (pstate w))\<rparr>)"
  by (cases "m req (pstate w)") (simp add: round_trip_def)

lemma framed_frame_kernel_get:
  "kernel_get n P ct obj property w = Some (res, w') \<Longrightarrow> frame w w'"
  using framed_kernel_get by (rule framedD)

lemma frame_sget: "sget n P ct klass property w = Some (res, w') \<Longrightarrow> frame w w'"
proof -
  assume a: "sget n P ct klass property w = Some (res, w')"
  have f: "\<And>w res w'. sget_body P ct klass property w = (res, w') \<Longrightarrow> frame w w'"
    by (auto simp: sget_body_def dest: frame_round_trip)
  from a have d: "dereferenced ct (kernel_get n P ct) (sget_body P ct klass property) w
                    = Some (res, w')"
    by (simp add: sget_def)
  show "frame w w'" by (rule frame_dereferenced [OF framed_kernel_get f d])
qed

lemma frame_invoke: "invoke n P ct obj method args w = Some (res, w') \<Longrightarrow> frame w w'"
proof -
  assume a: "invoke n P ct obj method args w = Some (res, w')"
  have f: "\<And>w res w'. invoke_body P obj method args w = (res, w') \<Longrightarrow> frame w w'"
    by (auto simp: invoke_body_def with_jsii_ref_def frame_refl Let_def split: option.splits
          dest: frame_round_trip)
  from a have d: "dereferenced ct (kernel_get n P ct) (invoke_body P obj method args) w
                    = Some (res, w')"
    by (simp add: invoke_def)
  show "frame w w'" by (rule frame_dereferenced [OF framed_kernel_get f d])
qed

lemma frame_sinvoke: "sinvoke n P ct klass method args w = Some (res, w') \<Longrightarrow> frame w w'"
proof -
  assume a: "sinvoke n P ct klass method args w = Some (res, w')"
  have f: "\<And>w res w'. sinvoke_body P ct klass method args w = (res, w') \<Longrightarrow> frame w w'"
    by (auto simp: sinvoke_body_def Let_def dest: frame_round_trip)
  from a have d: "dereferenced ct (kernel_get n P ct) (sinvoke_body P ct klass method args) w
                    = Some (res, w')"
    by (simp add: sinvoke_def)
  show "frame w w'" by (rule frame_dereferenced [OF framed_kernel_get f d])
qed

text \<open>
  Claim C8. When the provider's round trip of an operation raises, the operation raises
  the same exception, and what it leaves differs from the state it started in by the
  provider's own state only: no instance has been given a reference, the map and the
  registries are as they were. Whatever a value-returning operation does later, while
  dereferencing, the map, the registries and every object that existed before stay as
  they were.
\<close>

theorem provider_failure_propagates:
  "(fst (p_load P (LoadRequest name version tarball) (pstate w)) = Inl e \<longrightarrow>
      load P name version tarball w =
        (Inl e, w\<lparr>pstate := snd (p_load P (LoadRequest name version tarball) (pstate w))\<rparr>)) \<and>
   (get_overides ct klass (inst_class (heap w obj)) = Inr overrides \<and>
    fst (p_create P (CreateRequest (jsii_type (ct klass))
           (case args of None \<Rightarrow> [] | Some a \<Rightarrow> a) overrides) (pstate w)) = Inl e \<longrightarrow>
      create P ct klass obj args w =
        (Inl e, w\<lparr>pstate := snd (p_create P (CreateRequest (jsii_type (ct klass))
           (case args of None \<Rightarrow> [] | Some a \<Rightarrow> a) overrides) (pstate w))\<rparr>)) \<and>
   (fst (p_delete P (DeleteRequest r) (pstate w)) = Inl e \<longrightarrow>
      delete P r w = (Inl e, w\<lparr>pstate := snd (p_delete P (DeleteRequest r) (pstate w))\<rparr>)) \<and>
   (jsii_ref_of w target = Some r \<and>
    fst (p_get P (GetRequest r property) (pstate w)) = Inl e \<longrightarrow>
      kernel_get (Suc n) P ct target property w =
        Some (Inl e, w\<lparr>pstate := snd (p_get P (GetRequest r property) (pstate w))\<rparr>)) \<and>
   (jsii_ref_of w target = Some r \<and>
    fst (p_set P (SetRequest r property v) (pstate w)) = Inl e \<longrightarrow>
      kernel_set P target property v w =
        (Inl e, w\<lparr>pstate := snd (p_set P (SetRequest r property v) (pstate w))\<rparr>)) \<and>
   (fst (p_sget P (StaticGetRequest (jsii_type (ct klass)) property) (pstate w)) = Inl e \<longrightarrow>
      sget n P ct klass property w =
        Some (Inl e, w\<lparr>pstate :=
          snd (p_sget P (StaticGetRequest (jsii_type (ct klass)) property) (pstate w))\<rparr>)) \<and>
   (fst (p_sset P (StaticSetRequest (jsii_type (ct klass)) property v) (pstate w)) = Inl e \<longrightarrow>
      sset P ct klass property v w =
        (Inl e, w\<lparr>pstate :=
          snd (p_sset P (StaticSetRequest (jsii_type (ct klass)) property v) (pstate w))\<rparr>)) \<and>
   (jsii_ref_of w target = Some r \<and>
    fst (p_invoke P (InvokeRequest r method_name (case args of None \<Rightarrow> [] | Some a \<Rightarrow> a))
           (pstate w)) = Inl e \<longrightarrow>
      invoke n P ct target method_name args w =
        Some (Inl e, w\<lparr>pstate :=
          snd (p_invoke P (InvokeRequest r method_name (case args of None \<Rightarrow> [] | Some a \<Rightarrow> a))
                 (pstate w))\<rparr>)) \<and>
   (fst (p_sinvoke P (StaticInvokeRequest (jsii_type (ct klass)) method_name
           (case args of None \<Rightarrow> [] | Some a \<Rightarrow> a)) (pstate w)) = Inl e \<longrightarrow>
      sinvoke n P ct klass method_name args w =
        Some (Inl e, w\<lparr>pstate :=
          snd (p_sinvoke P (StaticInvokeRequest (jsii_type (ct klass)) method_name
                 (case args of None \<Rightarrow> [] | Some a \<Rightarrow> a)) (pstate w))\<rparr>)) \<and>
   (fst (p_stats P StatsRequest (pstate w)) = Inl e \<longrightarrow>
      stats P w = (Inl e, w\<lparr>pstate := snd (p_stats P StatsRequest (pstate w))\<rparr>)) \<and>
   (\<forall>res w'. kernel_get n P ct target property w = Some (res, w') \<or>
              sget n P ct klass property w = Some (res, w') \<or>
              invoke n P ct target method_name args w = Some (res, w') \<or>
              sinvoke n P ct klass method_name args w = Some (res, w') \<longrightarrow> frame w w')"
proof (intro conjI impI allI)
  show "load P name version tarball w =
        (Inl e, w\<lparr>pstate := snd (p_load P (LoadRequest name version tarball) (pstate w))\<rparr>)"
    if "fst (p_load P (LoadRequest name version tarball) (pstate w)) = Inl e"
    using that by (simp add: load_def round_trip_fails)
  show "create P ct klass obj args w =
        (Inl e, w\<lparr>pstate := snd (p_create P (CreateRequest (jsii_type (ct klass))
           (case args of None \<Rightarrow> [] | Some a \<Rightarrow> a) overrides) (pstate w))\<rparr>)"
    if "get_overides ct klass (inst_class (heap w obj)) = Inr overrides \<and>
        fst (p_create P (CreateRequest (jsii_type (ct klass))
           (case args of None \<Rightarrow> [] | Some a \<Rightarrow> a) overrides) (pstate w)) = Inl e"
    using that by (simp add: create_def Let_def round_trip_fails)
  show "delete P r w = (Inl e, w\<lparr>pstate := snd (p_delete P (DeleteRequest r) (pstate w))\<rparr>)"
    if "fst (p_delete P (DeleteRequest r) (pstate w)) = Inl e"
    using that by (simp add: delete_def round_trip_fails)
  show "kernel_get (Suc n) P ct target property w =
        Some (Inl e, w\<lparr>pstate := snd (p_get P (GetRequest r property) (pstate w))\<rparr>)"
    if "jsii_ref_of w target = Some r \<and>
        fst (p_get P (GetRequest r property) (pstate w)) = Inl e"
    using that
    by (simp add: dereferenced_def get_body_def with_jsii_ref_def round_trip_fails)
  show "kernel_set P target property v w =
        (Inl e, w\<lparr>pstate := snd (p_set P (SetRequest r property v) (pstate w))\<rparr>)"
    if "jsii_ref_of w target = Some r \<and>
        fst (p_set P (SetRequest r property v) (pstate w)) = Inl e"
    using that by (simp add: kernel_set_def with_jsii_ref_def round_trip_fails)
  show "sget n P ct klass property w =
        Some (Inl e, w\<lparr>pstate :=
          snd (p_sget P (StaticGetRequest (jsii_type (ct klass)) property) (pstate w))\<rparr>)"
    if "fst (p_sget P (StaticGetRequest (jsii_type (ct klass)) property) (pstate w)) = Inl e"
    using that by (simp add: sget_def dereferenced_def sget_body_def round_trip_fails)
  show "sset P ct klass property v w =
        (Inl e, w\<lparr>pstate :=
          snd (p_sset P (StaticSetRequest (jsii_type (ct klass)) property v) (pstate w))\<rparr>)"
    if "fst (p_sset P (StaticSetRequest (jsii_type (ct klass)) property v) (pstate w)) = Inl e"
    using that by (simp add: sset_def round_trip_fails)
  show "invoke n P ct target method_name args w =
        Some (Inl e, w\<lparr>pstate :=
          snd (p_invoke P (InvokeRequest r method_name (case args of None \<Rightarrow> [] | Some a \<Rightarrow> a))
                 (pstate w))\<rparr>)"
    if "jsii_ref_of w target = Some r \<and>
        fst (p_invoke P (InvokeRequest r method_name (case args of None \<Rightarrow> [] | Some a \<Rightarrow> a))
           (pstate w)) = Inl e"
    using that
    by (simp add: invoke_def dereferenced_def invoke_body_def Let_def with_jsii_ref_def
          round_trip_fails)
  show "sinvoke n P ct klass method_name args w =
        Some (Inl e, w\<lparr>pstate :=
          snd (p_sinvoke P (StaticInvokeRequest (jsii_type (ct klass)) method_name
                 (case args of None \<Rightarrow> [] | Some a \<Rightarrow> a)) (pstate w))\<rparr>)"
    if "fst (p_sinvoke P (StaticInvokeRequest (jsii_type (ct klass)) method_name
           (case args of None \<Rightarrow> [] | Some a \<Rightarrow> a)) (pstate w)) = Inl e"
    using that
    by (simp add: sinvoke_def dereferenced_def sinvoke_body_def Let_def round_trip_fails)
  show "stats P w = (Inl e, w\<lparr>pstate := snd (p_stats P StatsRequest (pstate w))\<rparr>)"
    if "fst (p_stats P StatsRequest (pstate w)) = Inl e"
    using that by (simp add: stats_def round_trip_fails)
  show "frame w w'"
    if "kernel_get n P ct target property w = Some (res, w') \<or>
        sget n P ct klass property w = Some (res, w') \<or>
        invoke n P ct target method_name args w = Some (res, w') \<or>
        sinvoke n P ct klass method_name args w = Some (res, w')" for res w'
    using that
    by (auto dest: framed_frame_kernel_get frame_sget frame_invoke frame_sinvoke)
qed

theorem provider_failure_propagates_witness:
  "fst (p_load failing_provider (LoadRequest ''demo'' ''1.0'' ''demo.tgz'')
         (pstate created_world)) = Inl (ProviderError ''pipe closed'') \<and>
   load failing_provider ''demo'' ''1.0'' ''demo.tgz'' created_world =
     (Inl (ProviderError ''pipe closed''),
      created_world\<lparr>pstate := [demo_create_request,
                                  LoadRequest ''demo'' ''1.0'' ''demo.tgz'']\<rparr>) \<and>
   get_overides demo_classes ''Greeter'' (inst_class (heap created_world 0)) =
     Inr [Override (Some ''sayHello'') None (Some ''say_hello''),
          Override None (Some ''displayName'') (Some ''display_name'')] \<and>
   fst (p_create failing_provider demo_create_request (pstate created_world))
     = Inl (ProviderError ''pipe closed'') \<and>
   create failing_provider demo_classes ''Greeter'' 0 None created_world =
     (Inl (ProviderError ''pipe closed''),
      created_world\<lparr>pstate := [demo_create_request, demo_create_request]\<rparr>) \<and>
   fst (p_delete failing_provider (DeleteRequest (ObjRef ''demo.Greeter@1''))
         (pstate created_world)) = Inl (ProviderError ''pipe closed'') \<and>
   delete failing_provider (ObjRef ''demo.Greeter@1'') created_world =
     (Inl (ProviderError ''pipe closed''),
      created_world\<lparr>pstate := [demo_create_request,
                                  DeleteRequest (ObjRef ''demo.Greeter@1'')]\<rparr>) \<and>
   jsii_ref_of created_world (Instance 0) = Some (ObjRef ''demo.Greeter@1'') \<and>
   fst (p_get failing_provider (GetRequest (ObjRef ''demo.Greeter@1'') ''home'')
         (pstate created_world)) = Inl (ProviderError ''pipe closed'') \<and>
   kernel_get (Suc 0) failing_provider demo_classes (Instance 0) ''home'' created_world =
     Some (Inl (ProviderError ''pipe closed''),
           created_world\<lparr>pstate := [demo_create_request,
                                       GetRequest (ObjRef ''demo.Greeter@1'') ''home'']\<rparr>) \<and>
   fst (p_set failing_provider (SetRequest (ObjRef ''demo.Greeter@1'') ''home'' VNone)
         (pstate created_world)) = Inl (ProviderError ''pipe closed'') \<and>
   kernel_set failing_provider (Instance 0) ''home'' VNone created_world =
     (Inl (ProviderError ''pipe closed''),
      created_world\<lparr>pstate := [demo_create_request,
                                  SetRequest (ObjRef ''demo.Greeter@1'') ''home'' VNone]\<rparr>) \<and>
   fst (p_sget failing_provider (StaticGetRequest ''demo.Greeter'' ''home'')
         (pstate created_world)) = Inl (ProviderError ''pipe closed'') \<and>
   sget 0 failing_provider demo_classes ''Greeter'' ''home'' created_world =
     Some (Inl (ProviderError ''pipe closed''),
           created_world\<lparr>pstate := [demo_create_request,
                                       StaticGetRequest ''demo.Greeter'' ''home'']\<rparr>) \<and>
   fst (p_sset failing_provider (StaticSetRequest ''demo.Greeter'' ''home'' VNone)
         (pstate created_world)) = Inl (ProviderError ''pipe closed'') \<and>
   sset failing_provider demo_classes ''Greeter'' ''home'' VNone created_world =
     (Inl (ProviderError ''pipe closed''),
      created_world\<lparr>pstate := [demo_create_request,
                                  StaticSetRequest ''demo.Greeter'' ''home'' VNone]\<rparr>) \<and>
   fst (p_invoke failing_provider (InvokeRequest (ObjRef ''demo.Greeter@1'') ''greet'' [])
         (pstate created_world)) = Inl (ProviderError ''pipe closed'') \<and>
   invoke 0 failing_provider demo_classes (Instance 0) ''greet'' None created_world =
     Some (Inl (ProviderError ''pipe closed''),
           created_world\<lparr>pstate := [demo_create_request,
                                       InvokeRequest (ObjRef ''demo.Greeter@1'') ''greet'' []]\<rparr>) \<and>
   fst (p_sinvoke failing_provider (StaticInvokeRequest ''demo.Greeter'' ''greet'' [])
         (pstate created_world)) = Inl (ProviderError ''pipe closed'') \<and>
   sinvoke 0 failing_provider demo_classes ''Greeter'' ''greet'' None created_world =
     Some (Inl (ProviderError ''pipe closed''),
           created_world\<lparr>pstate := [demo_create_request,
                                       StaticInvokeRequest ''demo.Greeter'' ''greet'' []]\<rparr>) \<and>
   fst (p_stats failing_provider StatsRequest (pstate created_world))
     = Inl (ProviderError ''pipe closed'') \<and>
   stats failing_provider created_world =
     (Inl (ProviderError ''pipe closed''),
      created_world\<lparr>pstate := [demo_create_request, StatsRequest]\<rparr>)"
  using provider_failure_propagates
    [where P = failing_provider and ct = demo_classes and w = created_world
       and e = "ProviderError ''pipe closed''"
       and name = "''demo''" and version = "''1.0''" and tarball = "''demo.tgz''"
       and klass = "''Greeter''" and obj = 0 and args = None
       and overrides = "[Override (Some ''sayHello'') None (Some ''say_hello''),
                         Override None (Some ''displayName'') (Some ''display_name'')]"
       and r = "ObjRef ''demo.Greeter@1''" and target = "Instance 0"
       and property = "''home''" and v = VNone and method_name = "''greet''" and n = 0]
  by (simp add: failing_provider_def created_world_simps demo_get_overides demo_abstract
        demo_create_request_def)

lemma fields_loop_dict:
  "fields_loop kget r names inst w = Some (Inr v, w') \<Longrightarrow> \<exists>items. v = VDict items"
  by (induction names arbitrary: inst w) (auto split: option.splits sum.splits)

lemma resolve_not_marker:
  assumes "resolve ct kget r w = Some (Inr v, w')"
  shows "\<not> is_marker v"
proof (cases "refs w (ref r)")
  case (Some inst)
  with assms show ?thesis by (auto simp: resolve_def)
next
  case None
  note miss = this
  show ?thesis
  proof (cases "types w (rsplit_head (ref r))")
    case (Some klass)
    with assms miss show ?thesis
      by (auto simp: resolve_def Let_def new_instance_def split: if_splits option.splits)
  next
    case None
    with assms miss show ?thesis
      by (auto simp: resolve_def Let_def split: option.splits dest: fields_loop_dict)
  qed
qed

lemma deref_value_not_marker:
  "recursize_dereference ct kget v w = Some (Inr v', w') \<Longrightarrow> is_marker v \<Longrightarrow> \<not> is_marker v'"
  by (cases v) (auto dest: resolve_not_marker)

lemma deref_items_keys:
  "deref_items ct kget items w = Some (Inr items', w') \<Longrightarrow>
   list_all2 (\<lambda>p p'. fst p' = fst p \<and> (is_marker (snd p) \<longrightarrow> \<not> is_marker (snd p')))
     items items'"
proof (induction items arbitrary: w items')
  case Nil
  then show ?case by simp
next
  case (Cons p items)
  obtain k v where p: "p = (k, v)" by (cases p)
  from Cons.prems obtain v' w1 rest' where
    d: "recursize_dereference ct kget v w = Some (Inr v', w1)"
    and r: "deref_items ct kget items w1 = Some (Inr rest', w')"
    and i: "items' = (k, v') # rest'"
    unfolding p by (auto split: option.splits sum.splits)
  from Cons.IH [OF r] deref_value_not_marker [OF d] show ?case
    by (simp add: p i)
qed

text \<open>
  Claim C9. Dereferencing a mapping keeps its keys as they are, in order, a marker among
  them included; a value that is a marker is replaced by what \<^verbatim>\<open>resolve\<close> returns for it,
  which is never a marker.
\<close>

theorem dereference_mapping_keys_untouched:
  assumes "recursize_dereference ct kget (VDict items) w = Some (Inr out, w')"
  shows "\<exists>items'. out = VDict items' \<and> map fst items' = map fst items \<and>
           list_all2 (\<lambda>p p'. fst p' = fst p \<and> (is_marker (snd p) \<longrightarrow> \<not> is_marker (snd p')))
             items items'"
proof -
  from assms obtain items' where d: "deref_items ct kget items w = Some (Inr items', w')"
    and o: "out = VDict items'"
    by (auto split: option.splits sum.splits)
  have l: "list_all2 (\<lambda>p p'. fst p' = fst p \<and> (is_marker (snd p) \<longrightarrow> \<not> is_marker (snd p')))
             items items'"
    by (rule deref_items_keys [OF d])
  then have "list_all2 (\<lambda>p p'. fst p' = fst p) items items'"
    by (rule list_all2_mono) simp
  then have "map fst items' = map fst items"
    by (induction rule: list_all2_induct) simp_all
  with o l show ?thesis by blast
qed

lemma demo_deref_index:
  "recursize_dereference demo_classes (kernel_get 1 logging_provider demo_classes)
     (VDict [(VRef (ObjRef ''demo.Greeter@7''), VRef (ObjRef ''demo.Greeter@7''))]) demo_world
   = Some (Inr (VDict [(VRef (ObjRef ''demo.Greeter@7''), VInst 2)]),
           demo_world\<lparr>heap := (heap demo_world)
                          (2 := \<lparr>inst_class = ''Greeter'',
                                 jsii_ref = Some (ObjRef ''demo.Greeter@7'')\<rparr>),
                        next_id := 3\<rparr>)"
  by (simp add: demo_resolve_greeter del: kernel_get.simps)

theorem dereference_mapping_keys_untouched_witness:
  "recursize_dereference demo_classes (kernel_get 1 logging_provider demo_classes)
     (VDict [(VRef (ObjRef ''demo.Greeter@7''), VRef (ObjRef ''demo.Greeter@7''))]) demo_world
   = Some (Inr (VDict [(VRef (ObjRef ''demo.Greeter@7''), VInst 2)]),
           demo_world\<lparr>heap := (heap demo_world)
                          (2 := \<lparr>inst_class = ''Greeter'',
                                 jsii_ref = Some (ObjRef ''demo.Greeter@7'')\<rparr>),
                        next_id := 3\<rparr>) \<and>
   map fst [(VRef (ObjRef ''demo.Greeter@7''), VInst 2)]
     = map fst [(VRef (ObjRef ''demo.Greeter@7''), VRef (ObjRef ''demo.Greeter@7''))] \<and>
   is_marker (VRef (ObjRef ''demo.Greeter@7'')) \<and> \<not> is_marker (VInst 2)"
  using dereference_mapping_keys_untouched [OF demo_deref_index] demo_deref_index
  by simp

text \<open>
  Claim C2 does not hold of the code: \<^verbatim>\<open>_recursize_dereference\<close> has a case for mappings
  and a case for markers, and none for sequences, which it returns untouched. A property
  whose value is a list of object references comes back from \<^verbatim>\<open>get\<close> with the marker
  still inside.
\<close>

theorem get_leaves_marker_in_sequence:
  "map_option fst
     (kernel_get 1 logging_provider demo_classes (Instance 0) ''friends'' created_world)
   = Some (Inr (VList [VRef (ObjRef ''demo.Greeter@7'')]))"
  by (simp add: dereferenced_def get_body_def with_jsii_ref_def jsii_ref_of_def round_trip_def
        logging_provider_def demo_answers_def created_world_def)

end
